theory Spec2Isabelle
  imports Complex_Main
begin

section \<open>Data model\<close>

text \<open>
  The development embeds \<^verbatim>\<open>opm/core/grid/GridManager.cpp\<close> and \<^verbatim>\<open>mxgrdecl.c\<close>.
  C++ \<^verbatim>\<open>int\<close> values are HOL integers, container sizes are natural numbers and
  \<^verbatim>\<open>double\<close> values are real numbers: rounding, NaN and signed zeros are outside this
  model, and so are containers with more than \<^verbatim>\<open>INT_MAX\<close> elements.
\<close>

type_synonym double = real

text \<open>
  Every way a run can stop without a result is a value:
  \<^item> \<open>runtime_error msg\<close>: \<^verbatim>\<open>OPM_THROW(std::runtime_error, msg)\<close> (the macro is declared in
    \<^verbatim>\<open>ErrorMacros.hpp\<close>; only its message argument is modelled);
  \<^item> \<open>mex_error msg\<close>: \<^verbatim>\<open>mexErrMsgTxt(msg)\<close>, which leaves the MEX function;
  \<^item> \<open>deck_exception\<close>: an exception raised inside an accessor of the deck library
    (a keyword, record, item or value that is not there);
  \<^item> \<open>out_of_bounds\<close>: \<^verbatim>\<open>operator[]\<close> of a \<^verbatim>\<open>std::vector\<close> read past the end
    (undefined behaviour in C++);
  \<^item> \<open>null_pointer\<close>: a read through a null pointer (undefined behaviour);
  \<^item> \<open>undefined_conversion\<close>: the conversion to \<^verbatim>\<open>int\<close> of a \<^verbatim>\<open>double\<close> whose integral part
    is not a value of \<^verbatim>\<open>int\<close> (undefined behaviour).
\<close>

datatype error =
    runtime_error string
  | mex_error string
  | deck_exception
  | out_of_bounds
  | null_pointer
  | undefined_conversion

fun and_then :: "error + 'a \<Rightarrow> ('a \<Rightarrow> error + 'b) \<Rightarrow> error + 'b" where
  "and_then (Inl e) f = Inl e"
| "and_then (Inr x) f = f x"

subsection \<open>The deck interface\<close>

text \<open>
  The deck is the parser library's keyword store, which this repository only consumes.
  It is modelled by the interface the code calls: \<^verbatim>\<open>hasKeyword\<close>, \<^verbatim>\<open>getKeyword\<close>, and on a
  keyword \<^verbatim>\<open>getSIDoubleData()\<close>, \<^verbatim>\<open>getIntData()\<close>, \<^verbatim>\<open>getRecord(i)\<close>; on a record \<^verbatim>\<open>size()\<close> and
  \<^verbatim>\<open>getItem(i)\<close>; on an item \<^verbatim>\<open>getInt(i)\<close> and \<^verbatim>\<open>getSIDouble(i)\<close>. A deck maps a keyword name
  to at most one keyword.
\<close>

record DeckItem =
  int_values :: "int list"
  SI_double_values :: "double list"

type_synonym DeckRecord = "DeckItem list"

record DeckKeyword =
  SIDoubleData :: "double list"
  IntData :: "int list"
  record_list :: "DeckRecord list"

type_synonym Deck = "string \<Rightarrow> DeckKeyword option"

definition hasKeyword :: "Deck \<Rightarrow> string \<Rightarrow> bool" where
  "hasKeyword deck name = (deck name \<noteq> None)"

definition getKeyword :: "Deck \<Rightarrow> string \<Rightarrow> error + DeckKeyword" where
  "getKeyword deck name = (case deck name of None \<Rightarrow> Inl deck_exception | Some kw \<Rightarrow> Inr kw)"

definition getRecord :: "DeckKeyword \<Rightarrow> nat \<Rightarrow> error + DeckRecord" where
  "getRecord kw i =
     (if i < length (record_list kw) then Inr (record_list kw ! i) else Inl deck_exception)"

definition getItem :: "DeckRecord \<Rightarrow> nat \<Rightarrow> error + DeckItem" where
  "getItem r i = (if i < length r then Inr (r ! i) else Inl deck_exception)"

definition getInt :: "DeckItem \<Rightarrow> nat \<Rightarrow> error + int" where
  "getInt it i =
     (if i < length (int_values it) then Inr (int_values it ! i) else Inl deck_exception)"

definition getSIDouble :: "DeckItem \<Rightarrow> nat \<Rightarrow> error + double" where
  "getSIDouble it i =
     (if i < length (SI_double_values it) then Inr (SI_double_values it ! i)
      else Inl deck_exception)"

text \<open>\<^verbatim>\<open>v[i]\<close> on a \<^verbatim>\<open>std::vector\<close>: no bounds check in the source, so a read past the end
  is the value \<open>out_of_bounds\<close>.\<close>

definition vector_at :: "'a list \<Rightarrow> nat \<Rightarrow> error + 'a" where
  "vector_at v i = (if i < length v then Inr (v ! i) else Inl out_of_bounds)"

subsection \<open>Pointers, the malloc heap and the corner-point input record\<close>

text \<open>
  A pointer field of \<^verbatim>\<open>struct grdecl\<close> is null, or points to the first element of an array
  owned by somebody else (\<open>Data xs\<close>: \<^verbatim>\<open>&v[0]\<close>, \<^verbatim>\<open>v.data()\<close>, \<^verbatim>\<open>mxGetPr(field)\<close>; \<open>xs\<close> is what
  the array holds), or is the result of \<^verbatim>\<open>malloc\<close> (\<open>Malloced a\<close>: block number \<open>a\<close> of the
  heap). The heap is the list of the blocks allocated so far; a cell that was never
  written holds \<open>None\<close>.
\<close>

datatype 'a pointer = Null | Data "'a list" | Malloced nat

type_synonym heap = "double option list list"

definition malloc :: "nat \<Rightarrow> heap \<Rightarrow> nat \<times> heap" where
  "malloc n h = (length h, h @ [replicate n None])"

definition store :: "heap \<Rightarrow> nat \<Rightarrow> nat \<Rightarrow> double \<Rightarrow> heap" where
  "store h a i v = h[a := (h ! a)[i := Some v]]"

record grdecl =
  dims :: "int \<times> int \<times> int"
  coord :: "double pointer"
  zcorn :: "double pointer"
  actnum :: "int pointer"
  mapaxes :: "double pointer"

section \<open>Coordinates from deltas\<close>

text \<open>
  \<^verbatim>\<open>std::partial_sum(first, last, out)\<close>: the first output is the first input; every later
  output is the running sum plus the next input.
\<close>

fun partial_sum_from :: "double \<Rightarrow> double list \<Rightarrow> double list" where
  "partial_sum_from s [] = []"
| "partial_sum_from s (d # ds) = (s + d) # partial_sum_from (s + d) ds"

fun partial_sum :: "double list \<Rightarrow> double list" where
  "partial_sum [] = []"
| "partial_sum (d # ds) = d # partial_sum_from d ds"

text \<open>Writing the sequence \<open>ys\<close> into \<open>xs\<close> from position \<open>i\<close> on.\<close>

definition write_from :: "'a list \<Rightarrow> nat \<Rightarrow> 'a list \<Rightarrow> 'a list" where
  "write_from xs i ys = take i xs @ ys @ drop (i + length ys) xs"

text \<open>
  \<^verbatim>\<open>coordsFromDeltas\<close>: a vector of \<^verbatim>\<open>deltas.size() + 1\<close> zeros, element 0 set to 0.0, and the
  partial sums of the deltas written from element 1 on.
\<close>

definition coordsFromDeltas :: "double list \<Rightarrow> double list" where
  "coordsFromDeltas deltas =
     (let coords = replicate (length deltas + 1) 0;
          coords = coords[0 := 0]
      in write_from coords 1 (partial_sum deltas))"

section \<open>Dimensions declared by the deck\<close>

text \<open>\<^verbatim>\<open>kw->getRecord(0)->getItem(j)->getInt(0)\<close>\<close>

definition record0_int :: "DeckKeyword \<Rightarrow> nat \<Rightarrow> error + int" where
  "record0_int kw j =
     and_then (getRecord kw 0) (\<lambda>r. and_then (getItem r j) (\<lambda>it. getInt it 0))"

definition dims_of_keyword :: "DeckKeyword \<Rightarrow> error + int \<times> int \<times> int" where
  "dims_of_keyword kw =
     and_then (record0_int kw 0) (\<lambda>nx.
     and_then (record0_int kw 1) (\<lambda>ny.
     and_then (record0_int kw 2) (\<lambda>nz. Inr (nx, ny, nz))))"

text \<open>
  The block that fills \<^verbatim>\<open>std::array<int, 3> dims\<close>. The source has it twice, word for word:
  in \<^verbatim>\<open>createGrdecl\<close> (lines 185 to 198) and in \<^verbatim>\<open>initFromDeckTensorgrid\<close> (lines 241 to 254).
\<close>

definition logical_dims :: "Deck \<Rightarrow> error + int \<times> int \<times> int" where
  "logical_dims deck =
     (if hasKeyword deck ''DIMENS'' then
        and_then (getKeyword deck ''DIMENS'') dims_of_keyword
      else if hasKeyword deck ''SPECGRID'' then
        and_then (getKeyword deck ''SPECGRID'') dims_of_keyword
      else Inl (runtime_error ''Deck must have either DIMENS or SPECGRID.''))"

section \<open>The grid builders and the manager\<close>

text \<open>
  The builders are C functions of other files (\<^verbatim>\<open>cart_grid.h\<close>, \<^verbatim>\<open>cornerpoint_grid.h\<close>,
  \<^verbatim>\<open>grid.h\<close>); the manager only calls them, so they are parameters. Each returns a grid
  or null. The corner-point builder receives the heap as well, since it is handed the
  \<^verbatim>\<open>malloc\<close>ed MAPAXES block.
\<close>

record 'g Builders =
  create_grid_cornerpoint :: "grdecl \<Rightarrow> double \<Rightarrow> heap \<Rightarrow> 'g option \<times> heap"
  create_grid_cart2d :: "int \<Rightarrow> int \<Rightarrow> double \<Rightarrow> double \<Rightarrow> 'g option"
  create_grid_cart3d :: "int \<Rightarrow> int \<Rightarrow> int \<Rightarrow> 'g option"
  create_grid_hexa3d :: "int \<Rightarrow> int \<Rightarrow> int \<Rightarrow> double \<Rightarrow> double \<Rightarrow> double \<Rightarrow> 'g option"
  create_grid_tensor3d ::
    "int \<Rightarrow> int \<Rightarrow> int \<Rightarrow> double pointer \<Rightarrow> double pointer \<Rightarrow> double pointer \<Rightarrow>
     double pointer \<Rightarrow> 'g option"
  read_grid :: "string \<Rightarrow> 'g option"

text \<open>The manager's only member is the pointer \<^verbatim>\<open>ug_\<close>, which may be null.\<close>

record 'g GridManager =
  ug :: "'g option"

text \<open>The tail of every constructor: \<^verbatim>\<open>if (!ug_) OPM_THROW(std::runtime_error, msg)\<close>.\<close>

definition throw_if_null :: "'g option \<Rightarrow> string \<Rightarrow> error + 'g GridManager" where
  "throw_if_null u msg = (if u = None then Inl (runtime_error msg) else Inr \<lparr>ug = u\<rparr>)"

text \<open>
  The constructors are overloads of one name in C++; here each has a name of its own:
  \<^item> \<open>GridManager_eclipseGrid\<close> is \<^verbatim>\<open>GridManager(Opm::EclipseGridConstPtr)\<close>;
  \<^item> \<open>GridManager_deck\<close> is \<^verbatim>\<open>GridManager(Opm::DeckConstPtr)\<close>;
  \<^item> \<open>GridManager_2d\<close> is \<^verbatim>\<open>GridManager(int nx, int ny)\<close>;
  \<^item> \<open>GridManager_2d_sized\<close> is \<^verbatim>\<open>GridManager(int nx, int ny, double dx, double dy)\<close>;
  \<^item> \<open>GridManager_3d\<close> is \<^verbatim>\<open>GridManager(int nx, int ny, int nz)\<close>;
  \<^item> \<open>GridManager_3d_sized\<close> is \<^verbatim>\<open>GridManager(int nx, int ny, int nz, double dx, double dy, double dz)\<close>;
  \<^item> \<open>GridManager_file\<close> is \<^verbatim>\<open>GridManager(const std::string&)\<close>.

  A constructor that throws returns \<open>Inl\<close> of the error, and no manager. The constructors
  that call the corner-point builder pass the heap along and return it.
\<close>

subsection \<open>Construction from an EclipseGrid\<close>

text \<open>An EclipseGrid is the parser library's; the constructor reads its three sizes and
  the four vectors it exports, and points the record at them with \<^verbatim>\<open>data()\<close>.\<close>

text \<open>\<^verbatim>\<open>v.data()\<close>: a vector that holds nothing has no storage and gives the null pointer (this
  is how a grid without MAPAXES reaches the builder); any other vector gives the pointer
  to its first element.\<close>

definition vector_data :: "'a list \<Rightarrow> 'a pointer" where
  "vector_data v = (if v = [] then Null else Data v)"

record EclipseGrid =
  getNX :: int
  getNY :: int
  getNZ :: int
  exportMAPAXES :: "double list"
  exportCOORD :: "double list"
  exportZCORN :: "double list"
  exportACTNUM :: "int list"

definition GridManager_eclipseGrid ::
  "'g Builders \<Rightarrow> EclipseGrid \<Rightarrow> heap \<Rightarrow> (error + 'g GridManager) \<times> heap" where
  "GridManager_eclipseGrid B eclipseGrid h =
     (let g = \<lparr>dims = (getNX eclipseGrid, getNY eclipseGrid, getNZ eclipseGrid),
                coord = vector_data (exportCOORD eclipseGrid),
                zcorn = vector_data (exportZCORN eclipseGrid),
                actnum = vector_data (exportACTNUM eclipseGrid),
                mapaxes = vector_data (exportMAPAXES eclipseGrid)\<rparr>;
          (u, h') = create_grid_cornerpoint B g 0 h
      in (throw_if_null u ''Failed to construct grid.'', h'))"

subsection \<open>Cartesian grids and grid files\<close>

definition GridManager_2d :: "'g Builders \<Rightarrow> int \<Rightarrow> int \<Rightarrow> error + 'g GridManager" where
  "GridManager_2d B nx ny =
     throw_if_null (create_grid_cart2d B nx ny 1 1) ''Failed to construct grid.''"

definition GridManager_2d_sized ::
  "'g Builders \<Rightarrow> int \<Rightarrow> int \<Rightarrow> double \<Rightarrow> double \<Rightarrow> error + 'g GridManager" where
  "GridManager_2d_sized B nx ny dx dy =
     throw_if_null (create_grid_cart2d B nx ny dx dy) ''Failed to construct grid.''"

definition GridManager_3d :: "'g Builders \<Rightarrow> int \<Rightarrow> int \<Rightarrow> int \<Rightarrow> error + 'g GridManager" where
  "GridManager_3d B nx ny nz =
     throw_if_null (create_grid_cart3d B nx ny nz) ''Failed to construct grid.''"

definition GridManager_3d_sized ::
  "'g Builders \<Rightarrow> int \<Rightarrow> int \<Rightarrow> int \<Rightarrow> double \<Rightarrow> double \<Rightarrow> double \<Rightarrow> error + 'g GridManager" where
  "GridManager_3d_sized B nx ny nz dx dy dz =
     throw_if_null (create_grid_hexa3d B nx ny nz dx dy dz) ''Failed to construct grid.''"

definition GridManager_file :: "'g Builders \<Rightarrow> string \<Rightarrow> error + 'g GridManager" where
  "GridManager_file B input_filename =
     throw_if_null (read_grid B input_filename)
       (''Failed to read grid from file '' @ input_filename)"

subsection \<open>Corner-point grid from a deck\<close>

text \<open>
  The loop \<^verbatim>\<open>for (unsigned i = 0; i < mapaxesRecord->size(); ++i)
  cWtfMapaxes[i] = mapaxesRecord->getItem(i)->getSIDouble(0);\<close> on the block \<open>a\<close>.
  An exception of the deck leaves the loop with the block as it is then.
\<close>

function mapaxes_loop :: "DeckRecord \<Rightarrow> nat \<Rightarrow> nat \<Rightarrow> heap \<Rightarrow> error option \<times> heap" where
  "mapaxes_loop mapaxesRecord i a h =
     (if i < length mapaxesRecord then
        (case and_then (getItem mapaxesRecord i) (\<lambda>it. getSIDouble it 0) of
           Inl e \<Rightarrow> (Some e, h)
         | Inr v \<Rightarrow> mapaxes_loop mapaxesRecord (Suc i) a (store h a i v))
      else (None, h))"
  by pat_completeness auto
termination
  by (relation "measure (\<lambda>(r, i, a, h). length r - i)") auto

declare mapaxes_loop.simps [simp del]

definition createGrdecl :: "Deck \<Rightarrow> heap \<Rightarrow> (error + grdecl) \<times> heap" where
  "createGrdecl deck h =
     (case getKeyword deck ''ZCORN'' of Inl e \<Rightarrow> (Inl e, h) | Inr zcornKeyword \<Rightarrow>
     (case getKeyword deck ''COORD'' of Inl e \<Rightarrow> (Inl e, h) | Inr coordKeyword \<Rightarrow>
     (case (if hasKeyword deck ''ACTNUM''
            then and_then (getKeyword deck ''ACTNUM'') (\<lambda>kw. Inr (Data (IntData kw)))
            else Inr Null) of Inl e \<Rightarrow> (Inl e, h) | Inr actnum_ptr \<Rightarrow>
     (case logical_dims deck of Inl e \<Rightarrow> (Inl e, h) | Inr ds \<Rightarrow>
       (let g = \<lparr>dims = ds,
                  coord = Data (SIDoubleData coordKeyword),
                  zcorn = Data (SIDoubleData zcornKeyword),
                  actnum = actnum_ptr,
                  mapaxes = Null\<rparr>
        in if hasKeyword deck ''MAPAXES'' then
             (case and_then (getKeyword deck ''MAPAXES'') (\<lambda>kw. getRecord kw 0) of
                Inl e \<Rightarrow> (Inl e, h)
              | Inr mapaxesRecord \<Rightarrow>
                  (let (cWtfMapaxes, h1) = malloc (length mapaxesRecord) h
                   in (case mapaxes_loop mapaxesRecord 0 cWtfMapaxes h1 of
                         (Some e, h2) \<Rightarrow> (Inl e, h2)
                       | (None, h2) \<Rightarrow> (Inr (g\<lparr>mapaxes := Malloced cWtfMapaxes\<rparr>), h2))))
           else (Inr (g\<lparr>mapaxes := Null\<rparr>), h))))))"

definition initFromDeckCornerpoint ::
  "'g Builders \<Rightarrow> Deck \<Rightarrow> heap \<Rightarrow> (error + 'g GridManager) \<times> heap" where
  "initFromDeckCornerpoint B deck h =
     (case createGrdecl deck h of
        (Inl e, h1) \<Rightarrow> (Inl e, h1)
      | (Inr g, h1) \<Rightarrow>
          let (u, h2) = create_grid_cornerpoint B g 0 h1
          in (throw_if_null u ''Failed to construct grid.'', h2))"

subsection \<open>Tensor grid from a deck\<close>

text \<open>The decimal digits that \<^verbatim>\<open><<\<close> writes for \<^verbatim>\<open>depthz.size()\<close>.\<close>

definition digit_char :: "nat \<Rightarrow> char" where
  "digit_char n = ''0123456789'' ! n"

function string_of_nat :: "nat \<Rightarrow> string" where
  "string_of_nat n =
     (if n < 10 then [digit_char n] else string_of_nat (n div 10) @ [digit_char (n mod 10)])"
  by pat_completeness auto
termination
  by (relation "measure id") auto

declare string_of_nat.simps [simp del]

text \<open>
  The block "Extract top corner depths, if available." of \<^verbatim>\<open>initFromDeckTensorgrid\<close>
  (lines 275 to 294): the value of the pointer \<^verbatim>\<open>top_depths\<close>, from the deck and the
  coordinate vectors \<open>x\<close> and \<open>y\<close>. \<^verbatim>\<open>tops[0]\<close> is read before anything is known about the
  size of \<^verbatim>\<open>tops\<close>.
\<close>

definition top_depths_of :: "Deck \<Rightarrow> double list \<Rightarrow> double list \<Rightarrow> error + double pointer" where
  "top_depths_of deck x y =
     (if hasKeyword deck ''DEPTHZ'' then
        and_then (getKeyword deck ''DEPTHZ'') (\<lambda>kw.
          let depthz = SIDoubleData kw
          in if length depthz \<noteq> length x * length y then
               Inl (runtime_error
                      (''Incorrect size of DEPTHZ: '' @ string_of_nat (length depthz)))
             else Inr (Data depthz))
      else if hasKeyword deck ''TOPS'' then
        and_then (getKeyword deck ''TOPS'') (\<lambda>kw.
          let tops = SIDoubleData kw
          in and_then (vector_at tops 0) (\<lambda>tops0.
               if int (count_list tops tops0) \<noteq> int (length tops) then
                 Inl (runtime_error
                   ''We do not support nonuniform TOPS, please use ZCORN/COORDS instead.'')
               else Inr (Data (replicate (length x * length y) tops0))))
      else Inr Null)"

definition initFromDeckTensorgrid :: "'g Builders \<Rightarrow> Deck \<Rightarrow> error + 'g GridManager" where
  "initFromDeckTensorgrid B deck =
     (case logical_dims deck of Inl e \<Rightarrow> Inl e | Inr (nx, ny, nz) \<Rightarrow>
     (case getKeyword deck ''DXV'' of Inl e \<Rightarrow> Inl e | Inr dxvKeyword \<Rightarrow>
     (case getKeyword deck ''DYV'' of Inl e \<Rightarrow> Inl e | Inr dyvKeyword \<Rightarrow>
     (case getKeyword deck ''DZV'' of Inl e \<Rightarrow> Inl e | Inr dzvKeyword \<Rightarrow>
       (let dxv = SIDoubleData dxvKeyword;
            dyv = SIDoubleData dyvKeyword;
            dzv = SIDoubleData dzvKeyword;
            x = coordsFromDeltas dxv;
            y = coordsFromDeltas dyv;
            z = coordsFromDeltas dzv
        in if nx \<noteq> int (length dxv) then
             Inl (runtime_error ''Number of DXV data points do not match DIMENS or SPECGRID.'')
           else if ny \<noteq> int (length dyv) then
             Inl (runtime_error ''Number of DYV data points do not match DIMENS or SPECGRID.'')
           else if nz \<noteq> int (length dzv) then
             Inl (runtime_error ''Number of DZV data points do not match DIMENS or SPECGRID.'')
           else
             (case top_depths_of deck x y of
                Inl e \<Rightarrow> Inl e
              | Inr top_depths \<Rightarrow>
                  throw_if_null
                    (create_grid_tensor3d B (int (length dxv)) (int (length dyv)) (int (length dzv))
                       (Data x) (Data y) (Data z) top_depths)
                    ''Failed to construct grid.''))))))"

subsection \<open>Construction from a deck\<close>

definition GridManager_deck ::
  "'g Builders \<Rightarrow> Deck \<Rightarrow> heap \<Rightarrow> (error + 'g GridManager) \<times> heap" where
  "GridManager_deck B deck h =
     (if hasKeyword deck ''ZCORN'' \<and> hasKeyword deck ''COORD'' then
        initFromDeckCornerpoint B deck h
      else if hasKeyword deck ''DXV'' \<and> hasKeyword deck ''DYV'' \<and> hasKeyword deck ''DZV'' then
        (initFromDeckTensorgrid B deck, h)
      else
        (Inl (runtime_error (''Could not initialize grid from deck. '' @
                ''Need either ZCORN + COORD or DXV + DYV + DZV keywords.'')), h))"

section \<open>The corner-point record from a MATLAB struct\<close>

text \<open>
  \<^verbatim>\<open>mxgrdecl.c\<close> reads the same record from a MATLAB struct. The MEX interface is MATLAB's:
  an array has a class and elements, \<^verbatim>\<open>mxGetField\<close> returns null for a field that is not
  there, and the other accessors read through the pointer they are given.
\<close>

datatype mxClassID = mxINT32_CLASS | mxDOUBLE_CLASS | mxOTHER_CLASS

datatype mxArray = mxDoubles "double list" | mxInt32s "int list" | mxOther nat

type_synonym mxStruct = "string \<Rightarrow> mxArray option"

definition mxGetField :: "mxStruct \<Rightarrow> string \<Rightarrow> mxArray option" where
  "mxGetField s name = s name"

fun mxGetNumberOfElements :: "mxArray option \<Rightarrow> error + nat" where
  "mxGetNumberOfElements None = Inl null_pointer"
| "mxGetNumberOfElements (Some (mxDoubles xs)) = Inr (length xs)"
| "mxGetNumberOfElements (Some (mxInt32s xs)) = Inr (length xs)"
| "mxGetNumberOfElements (Some (mxOther n)) = Inr n"

fun mxGetClassID :: "mxArray option \<Rightarrow> error + mxClassID" where
  "mxGetClassID None = Inl null_pointer"
| "mxGetClassID (Some (mxDoubles xs)) = Inr mxDOUBLE_CLASS"
| "mxGetClassID (Some (mxInt32s xs)) = Inr mxINT32_CLASS"
| "mxGetClassID (Some (mxOther n)) = Inr mxOTHER_CLASS"

text \<open>\<^verbatim>\<open>mxGetPr\<close>: the real double data of an array; an array of another class has none.\<close>

fun mxGetPr :: "mxArray option \<Rightarrow> double pointer" where
  "mxGetPr (Some (mxDoubles xs)) = Data xs"
| "mxGetPr _ = Null"

text \<open>\<^verbatim>\<open>mxGetData\<close>, read as \<^verbatim>\<open>int*\<close> (the caller has checked the class).\<close>

fun mxGetData :: "mxArray option \<Rightarrow> int pointer" where
  "mxGetData (Some (mxInt32s xs)) = Data xs"
| "mxGetData _ = Null"

text \<open>\<^verbatim>\<open>tmp[i]\<close> for \<^verbatim>\<open>double *tmp = mxGetPr(field)\<close>.\<close>

fun tmp_at :: "double pointer \<Rightarrow> nat \<Rightarrow> error + double" where
  "tmp_at (Data xs) i = vector_at xs i"
| "tmp_at _ i = Inl null_pointer"

text \<open>
  The arithmetic of \<^verbatim>\<open>mxgrdecl.c\<close> is on C \<^verbatim>\<open>int\<close>s of 32 bits. A product or sum that leaves
  the range wraps around in the compiled code (the C standard leaves it undefined):
  \<open>wrap_int x\<close> is the \<^verbatim>\<open>int\<close> that is congruent to \<open>x\<close> modulo \<open>2 ^ 32\<close>. \<open>int_of_size\<close> is the
  assignment of a \<^verbatim>\<open>size_t\<close> to an \<^verbatim>\<open>int\<close>.
\<close>

definition wrap_int :: "int \<Rightarrow> int" where
  "wrap_int x = (x + 2 ^ 31) mod 2 ^ 32 - 2 ^ 31"

definition int_times :: "int \<Rightarrow> int \<Rightarrow> int" where
  "int_times a b = wrap_int (a * b)"

definition int_plus :: "int \<Rightarrow> int \<Rightarrow> int" where
  "int_plus a b = wrap_int (a + b)"

definition int_of_size :: "nat \<Rightarrow> int" where
  "int_of_size n = wrap_int (int n)"

text \<open>The conversion of a \<^verbatim>\<open>double\<close> to \<^verbatim>\<open>int\<close> drops the fraction (towards zero); it is
  undefined when the result is not a value of \<^verbatim>\<open>int\<close>.\<close>

definition int_of_double :: "double \<Rightarrow> error + int" where
  "int_of_double d =
     (let t = (if 0 \<le> d then \<lfloor>d\<rfloor> else \<lceil>d\<rceil>)
      in if - (2 ^ 31) \<le> t \<and> t < 2 ^ 31 then Inr t else Inl undefined_conversion)"

text \<open>
  \<^verbatim>\<open>mx_init_grdecl\<close> fills \<^verbatim>\<open>dims\<close>, \<^verbatim>\<open>actnum\<close>, \<^verbatim>\<open>coord\<close> and \<^verbatim>\<open>zcorn\<close> of the record it is given.
  The local \<^verbatim>\<open>n\<close> (the running product of the three numbers, converted back to \<^verbatim>\<open>int\<close> at
  each step) is computed and never read, so it is left out. The three products are evaluated from left to right, as C does.
\<close>

definition mx_init_grdecl :: "grdecl \<Rightarrow> mxStruct \<Rightarrow> error + grdecl" where
  "mx_init_grdecl g s =
     (let field = mxGetField s ''cartDims'' in
      and_then (mxGetNumberOfElements field) (\<lambda>n_elements.
        let numel = int_of_size n_elements;
            tmp = mxGetPr field in
        if numel \<noteq> 3 then Inl (mex_error ''cartDims field must be 3 numbers'') else
        and_then (tmp_at tmp 0) (\<lambda>t0. and_then (int_of_double t0) (\<lambda>d0.
        and_then (tmp_at tmp 1) (\<lambda>t1. and_then (int_of_double t1) (\<lambda>d1.
        and_then (tmp_at tmp 2) (\<lambda>t2. and_then (int_of_double t2) (\<lambda>d2.
          let g = g\<lparr>dims := (d0, d1, d2)\<rparr>;
              field = mxGetField s ''ACTNUM'' in
          and_then (mxGetNumberOfElements field) (\<lambda>n_elements.
          and_then (mxGetClassID field) (\<lambda>cls.
            if cls \<noteq> mxINT32_CLASS \<or>
               int_of_size n_elements \<noteq> int_times (int_times d0 d1) d2 then
              Inl (mex_error ''ACTNUM field must be nx*ny*nz numbers int32'')
            else
              let g = g\<lparr>actnum := mxGetData field\<rparr>;
                  field = mxGetField s ''COORD'' in
              and_then (mxGetNumberOfElements field) (\<lambda>n_elements.
              and_then (mxGetClassID field) (\<lambda>cls.
                if cls \<noteq> mxDOUBLE_CLASS \<or>
                   int_of_size n_elements \<noteq>
                     int_times (int_times 6 (int_plus d0 1)) (int_plus d1 1) then
                  Inl (mex_error ''COORD field must have 6*(nx+1)*(ny+1) doubles.'')
                else
                  let g = g\<lparr>coord := mxGetPr field\<rparr>;
                      field = mxGetField s ''ZCORN'' in
                  and_then (mxGetNumberOfElements field) (\<lambda>n_elements.
                  and_then (mxGetClassID field) (\<lambda>cls.
                    if cls \<noteq> mxDOUBLE_CLASS \<or>
                       int_of_size n_elements \<noteq>
                         int_times (int_times (int_times 8 d0) d1) d2 then
                      Inl (mex_error ''ZCORN field must have 8*nx*ny*nz doubles.'')
                    else Inr (g\<lparr>zcorn := mxGetPr field\<rparr>)))))))))))))))"

section \<open>Example inputs\<close>

text \<open>
  Builders that record the call they receive, and builders that always return null;
  decks for the scenarios the theorems below are run on.
\<close>

datatype built =
    Built_cornerpoint grdecl double
  | Built_cart2d int int double double
  | Built_cart3d int int int
  | Built_hexa3d int int int double double double
  | Built_tensor3d int int int "double pointer" "double pointer" "double pointer" "double pointer"
  | Built_file string

definition echo_builders :: "built Builders" where
  "echo_builders =
     \<lparr>create_grid_cornerpoint = (\<lambda>g tol h. (Some (Built_cornerpoint g tol), h)),
      create_grid_cart2d = (\<lambda>nx ny dx dy. Some (Built_cart2d nx ny dx dy)),
      create_grid_cart3d = (\<lambda>nx ny nz. Some (Built_cart3d nx ny nz)),
      create_grid_hexa3d = (\<lambda>nx ny nz dx dy dz. Some (Built_hexa3d nx ny nz dx dy dz)),
      create_grid_tensor3d = (\<lambda>nx ny nz x y z top. Some (Built_tensor3d nx ny nz x y z top)),
      read_grid = (\<lambda>f. Some (Built_file f))\<rparr>"

definition null_builders :: "built Builders" where
  "null_builders =
     \<lparr>create_grid_cornerpoint = (\<lambda>g tol h. (None, h)),
      create_grid_cart2d = (\<lambda>nx ny dx dy. None),
      create_grid_cart3d = (\<lambda>nx ny nz. None),
      create_grid_hexa3d = (\<lambda>nx ny nz dx dy dz. None),
      create_grid_tensor3d = (\<lambda>nx ny nz x y z top. None),
      read_grid = (\<lambda>f. None)\<rparr>"

definition data_keyword :: "double list \<Rightarrow> DeckKeyword" where
  "data_keyword xs = \<lparr>SIDoubleData = xs, IntData = [], record_list = []\<rparr>"

definition int_item :: "int \<Rightarrow> DeckItem" where
  "int_item i = \<lparr>int_values = [i], SI_double_values = []\<rparr>"

definition double_item :: "double \<Rightarrow> DeckItem" where
  "double_item v = \<lparr>int_values = [], SI_double_values = [v]\<rparr>"

definition dims_keyword :: "int \<Rightarrow> int \<Rightarrow> int \<Rightarrow> DeckKeyword" where
  "dims_keyword nx ny nz =
     \<lparr>SIDoubleData = [], IntData = [], record_list = [[int_item nx, int_item ny, int_item nz]]\<rparr>"

text \<open>A 2 x 2 x 1 tensor grid of unit cells, without top depths.\<close>

definition tensor_deck :: Deck where
  "tensor_deck = [''DIMENS'' \<mapsto> dims_keyword 2 2 1, ''DXV'' \<mapsto> data_keyword [1, 1],
                  ''DYV'' \<mapsto> data_keyword [1, 1], ''DZV'' \<mapsto> data_keyword [1]]"


text \<open>A deck with the corner-point keywords and the tensor keywords at once (one unit
  cell), and a deck with neither set complete.\<close>

definition both_deck :: Deck where
  "both_deck = [''DIMENS'' \<mapsto> dims_keyword 1 1 1,
                ''ZCORN'' \<mapsto> data_keyword [0, 0, 0, 0, 1, 1, 1, 1],
                ''COORD'' \<mapsto> data_keyword [0, 0, 0, 0, 0, 1, 1, 0, 0, 1, 0, 1,
                                             0, 1, 0, 0, 1, 1, 1, 1, 0, 1, 1, 1],
                ''DXV'' \<mapsto> data_keyword [1], ''DYV'' \<mapsto> data_keyword [1],
                ''DZV'' \<mapsto> data_keyword [1]]"

definition no_grid_deck :: Deck where
  "no_grid_deck = [''DIMENS'' \<mapsto> dims_keyword 1 1 1, ''ZCORN'' \<mapsto> data_keyword [0],
                   ''DXV'' \<mapsto> data_keyword [1], ''DYV'' \<mapsto> data_keyword [1]]"


text \<open>Decks that declare the dimensions with SPECGRID only (and one cell too many for
  DXV), and decks that do not declare them at all.\<close>

definition specgrid_deck :: Deck where
  "specgrid_deck = [''SPECGRID'' \<mapsto> dims_keyword 3 1 1, ''DXV'' \<mapsto> data_keyword [1, 1],
                    ''DYV'' \<mapsto> data_keyword [1], ''DZV'' \<mapsto> data_keyword [1]]"

definition no_dims_tensor_deck :: Deck where
  "no_dims_tensor_deck = [''DXV'' \<mapsto> data_keyword [1], ''DYV'' \<mapsto> data_keyword [1],
                          ''DZV'' \<mapsto> data_keyword [1]]"

definition no_dims_cornerpoint_deck :: Deck where
  "no_dims_cornerpoint_deck = [''ZCORN'' \<mapsto> data_keyword [0, 0, 0, 0, 1, 1, 1, 1],
                               ''COORD'' \<mapsto> data_keyword [0, 0, 0, 0, 0, 1]]"

text \<open>The message of the check of one delta keyword against the declared dimensions.\<close>

definition dims_mismatch :: "string \<Rightarrow> error" where
  "dims_mismatch keyword =
     runtime_error (''Number of '' @ keyword @ '' data points do not match DIMENS or SPECGRID.'')"

text \<open>Tensor decks whose DYV, or whose DZV, has one value more than DIMENS declares.\<close>

definition dyv_mismatch_deck :: Deck where
  "dyv_mismatch_deck = [''DIMENS'' \<mapsto> dims_keyword 2 2 1, ''DXV'' \<mapsto> data_keyword [1, 1],
                  ''DYV'' \<mapsto> data_keyword [1, 1, 1], ''DZV'' \<mapsto> data_keyword [1]]"

definition dzv_mismatch_deck :: Deck where
  "dzv_mismatch_deck = [''DIMENS'' \<mapsto> dims_keyword 2 2 1, ''DXV'' \<mapsto> data_keyword [1, 1],
                  ''DYV'' \<mapsto> data_keyword [1, 1], ''DZV'' \<mapsto> data_keyword [1, 1]]"

text \<open>The 2 x 2 x 1 tensor deck with TOPS: uniform, not uniform, and without any value;
  and with DEPTHZ next to a TOPS that is not uniform.\<close>

definition uniform_tops_deck :: Deck where
  "uniform_tops_deck = tensor_deck(''TOPS'' \<mapsto> data_keyword [5, 5, 5, 5])"

definition nonuniform_tops_deck :: Deck where
  "nonuniform_tops_deck = tensor_deck(''TOPS'' \<mapsto> data_keyword [5, 5, 6, 5])"

definition empty_tops_deck :: Deck where
  "empty_tops_deck = tensor_deck(''TOPS'' \<mapsto> data_keyword [])"

definition depthz_deck :: Deck where
  "depthz_deck = tensor_deck(''DEPTHZ'' \<mapsto> data_keyword [1, 2, 3, 4, 5, 6, 7, 8, 9],
                             ''TOPS'' \<mapsto> data_keyword [5, 5, 6, 5])"

text \<open>The values a MAPAXES record holds: the first SI value of each of its items.\<close>

definition record_SI_values :: "DeckRecord \<Rightarrow> double list" where
  "record_SI_values r = map (\<lambda>it. hd (SI_double_values it)) r"

text \<open>The one-cell corner-point deck with a MAPAXES record of six items.\<close>

definition mapaxes_deck :: Deck where
  "mapaxes_deck =
     both_deck(''MAPAXES'' \<mapsto>
       \<lparr>SIDoubleData = [], IntData = [],
        record_list = [map double_item [0, 1, 0, 0, 1, 0]]\<rparr>)"

text \<open>An EclipseGrid of one unit cell.\<close>

definition unit_eclipse_grid :: EclipseGrid where
  "unit_eclipse_grid =
     \<lparr>getNX = 1, getNY = 1, getNZ = 1, exportMAPAXES = [],
      exportCOORD = [0, 0, 0, 0, 0, 1, 1, 0, 0, 1, 0, 1, 0, 1, 0, 0, 1, 1, 1, 1, 0, 1, 1, 1],
      exportZCORN = [0, 0, 0, 0, 1, 1, 1, 1], exportACTNUM = [1]\<rparr>"

text \<open>One cell declared, 24 COORD values, but a single ZCORN value instead of eight: as a
  deck and as a MATLAB struct. \<open>blank_grdecl\<close> is the record before it is filled.\<close>

definition unit_coord :: "double list" where
  "unit_coord = [0, 0, 0, 0, 0, 1, 1, 0, 0, 1, 0, 1, 0, 1, 0, 0, 1, 1, 1, 1, 0, 1, 1, 1]"

definition short_zcorn_deck :: Deck where
  "short_zcorn_deck = [''DIMENS'' \<mapsto> dims_keyword 1 1 1, ''ZCORN'' \<mapsto> data_keyword [0],
                       ''COORD'' \<mapsto> data_keyword unit_coord]"

definition short_zcorn_struct :: mxStruct where
  "short_zcorn_struct = [''cartDims'' \<mapsto> mxDoubles [1, 1, 1], ''ACTNUM'' \<mapsto> mxInt32s [1],
                         ''COORD'' \<mapsto> mxDoubles unit_coord, ''ZCORN'' \<mapsto> mxDoubles [0]]"

definition unit_struct :: mxStruct where
  "unit_struct = [''cartDims'' \<mapsto> mxDoubles [1, 1, 1], ''ACTNUM'' \<mapsto> mxInt32s [1],
                  ''COORD'' \<mapsto> mxDoubles unit_coord,
                  ''ZCORN'' \<mapsto> mxDoubles [0, 0, 0, 0, 1, 1, 1, 1]]"

definition blank_grdecl :: grdecl where
  "blank_grdecl = \<lparr>dims = (0, 0, 0), coord = Null, zcorn = Null, actnum = Null, mapaxes = Null\<rparr>"

text \<open>Decks that declare the dimensions with SPECGRID only, for each of the two paths (the
  corner-point one with arrays of sizes that have nothing to do with the dimensions), and a
  deck where DIMENS and SPECGRID disagree.\<close>

definition specgrid_tensor_deck :: Deck where
  "specgrid_tensor_deck = [''SPECGRID'' \<mapsto> dims_keyword 2 1 1, ''DXV'' \<mapsto> data_keyword [1, 1],
                           ''DYV'' \<mapsto> data_keyword [1], ''DZV'' \<mapsto> data_keyword [1]]"

definition dimens_and_specgrid_deck :: Deck where
  "dimens_and_specgrid_deck = both_deck(''SPECGRID'' \<mapsto> dims_keyword 9 9 9)"

definition specgrid_cornerpoint_deck :: Deck where
  "specgrid_cornerpoint_deck =
     [''SPECGRID'' \<mapsto> dims_keyword 2 3 4, ''ZCORN'' \<mapsto> data_keyword [0, 1],
      ''COORD'' \<mapsto> data_keyword [5]]"

text \<open>A struct whose three dimensions multiply past the range of \<^verbatim>\<open>int\<close>: the products of
  \<^verbatim>\<open>mx_init_grdecl\<close> wrap around to 2, 24 and 16.\<close>

definition wrapped_dims_struct :: mxStruct where
  "wrapped_dims_struct =
     [''cartDims'' \<mapsto> mxDoubles [11, 178956970, 1098145047], ''ACTNUM'' \<mapsto> mxInt32s [1, 1],
      ''COORD'' \<mapsto> mxDoubles unit_coord,
      ''ZCORN'' \<mapsto> mxDoubles [0, 0, 0, 0, 0, 0, 0, 0, 1, 1, 1, 1, 1, 1, 1, 1]]"

text \<open>The two outcomes the specification allows a constructor: a manager that holds a grid,
  or the error the manager throws (a \<^verbatim>\<open>std::runtime_error\<close> with a message).\<close>

definition mesh_or_construction_error :: "error + 'g GridManager \<Rightarrow> bool" where
  "mesh_or_construction_error r =
     (case r of
        Inr m \<Rightarrow> ug m \<noteq> None
      | Inl e \<Rightarrow> (case e of runtime_error msg \<Rightarrow> True | _ \<Rightarrow> False))"

section \<open>Properties of the coordinate vectors\<close>

lemma length_partial_sum_from: "length (partial_sum_from s ds) = length ds"
  by (induction ds arbitrary: s) simp_all

lemma length_partial_sum: "length (partial_sum ds) = length ds"
  by (cases ds) (simp_all add: length_partial_sum_from)

lemma coordsFromDeltas_Cons: "coordsFromDeltas ds = 0 # partial_sum ds"
  by (simp add: coordsFromDeltas_def write_from_def length_partial_sum)

lemma length_coordsFromDeltas: "length (coordsFromDeltas ds) = length ds + 1"
  by (simp add: coordsFromDeltas_Cons length_partial_sum)

lemma partial_sum_from_step:
  "i < length ds \<Longrightarrow>
   partial_sum_from s ds ! i = (s # partial_sum_from s ds) ! i + ds ! i"
proof (induction ds arbitrary: s i)
  case Nil
  then show ?case by simp
next
  case (Cons d ds)
  show ?case
  proof (cases i)
    case 0
    then show ?thesis by simp
  next
    case (Suc j)
    with Cons.prems have "j < length ds" by simp
    from Cons.IH [OF this, of "s + d"] Suc show ?thesis by simp
  qed
qed

lemma coordsFromDeltas_step:
  assumes "1 \<le> i" and "i \<le> length ds"
  shows "coordsFromDeltas ds ! i = coordsFromDeltas ds ! (i - 1) + ds ! (i - 1)"
proof -
  from assms obtain j where j: "i = Suc j" and jl: "j < length ds"
    by (cases i) auto
  show ?thesis
  proof (cases ds)
    case Nil
    with jl show ?thesis by simp
  next
    case (Cons d ds')
    show ?thesis
    proof (cases j)
      case 0
      with j Cons show ?thesis by (simp add: coordsFromDeltas_Cons)
    next
      case (Suc k)
      with jl Cons have "k < length ds'" by simp
      from partial_sum_from_step [OF this, of d] j Suc Cons show ?thesis
        by (simp add: coordsFromDeltas_Cons)
    qed
  qed
qed

section \<open>Auxiliary facts\<close>

lemma throw_if_null_Inr: "throw_if_null u msg = Inr m \<longleftrightarrow> (u \<noteq> None \<and> m = \<lparr>ug = u\<rparr>)"
  by (auto simp: throw_if_null_def)

lemma throw_if_null_Inl: "throw_if_null u msg = Inl e \<longleftrightarrow> (u = None \<and> e = runtime_error msg)"
  by (auto simp: throw_if_null_def)

lemma and_then_Inl: "and_then a f = Inl e \<longleftrightarrow> (a = Inl e \<or> (\<exists>x. a = Inr x \<and> f x = Inl e))"
  by (cases a) simp_all

lemmas deck_eval =
  hasKeyword_def getKeyword_def getRecord_def getItem_def getInt_def getSIDouble_def
  vector_at_def record0_int_def dims_of_keyword_def logical_dims_def top_depths_of_def
  data_keyword_def int_item_def double_item_def dims_keyword_def throw_if_null_def Let_def

text \<open>A manager that the tensor path returns holds what the tensor builder returned for
  the coordinate vectors of the three delta keywords.\<close>

lemma tensor_Inr:
  assumes "initFromDeckTensorgrid B deck = Inr m"
  shows "\<exists>nx ny nz kx ky kz td.
           logical_dims deck = Inr (nx, ny, nz) \<and>
           deck ''DXV'' = Some kx \<and> deck ''DYV'' = Some ky \<and> deck ''DZV'' = Some kz \<and>
           nx = int (length (SIDoubleData kx)) \<and> ny = int (length (SIDoubleData ky)) \<and>
           nz = int (length (SIDoubleData kz)) \<and>
           ug m = create_grid_tensor3d B nx ny nz
                    (Data (coordsFromDeltas (SIDoubleData kx)))
                    (Data (coordsFromDeltas (SIDoubleData ky)))
                    (Data (coordsFromDeltas (SIDoubleData kz))) td \<and>
           ug m \<noteq> None"
  using assms
  unfolding initFromDeckTensorgrid_def getKeyword_def Let_def
  by (auto split: sum.splits option.splits if_splits prod.splits simp: throw_if_null_Inr)

lemma tensor_deck_result:
  "initFromDeckTensorgrid echo_builders tensor_deck =
     Inr \<lparr>ug = Some (Built_tensor3d 2 2 1 (Data [0, 1, 2]) (Data [0, 1, 2]) (Data [0, 1]) Null)\<rparr>"
  by (simp add: initFromDeckTensorgrid_def tensor_deck_def echo_builders_def deck_eval
      coordsFromDeltas_Cons)

section \<open>Cumulative coordinates (C5)\<close>

text \<open>
  Claim C5. For every delta vector of length \<open>n\<close>, \<^verbatim>\<open>coordsFromDeltas\<close> returns a vector of
  length \<open>n + 1\<close> whose element 0 is 0 and whose element \<open>i\<close>, for \<open>1 \<le> i \<le> n\<close>, is element
  \<open>i - 1\<close> plus \<open>delta[i - 1]\<close>. In the tensor-grid path the rule is applied to each of
  DXV, DYV and DZV on its own: a manager that the path returns holds the grid the tensor
  builder made from \<open>coordsFromDeltas\<close> of the DXV data, of the DYV data and of the DZV data.
\<close>

theorem coordsFromDeltas_cumulative:
  "length (coordsFromDeltas deltas) = length deltas + 1 \<and>
   coordsFromDeltas deltas ! 0 = 0 \<and>
   (\<forall>i. 1 \<le> i \<and> i \<le> length deltas \<longrightarrow>
      coordsFromDeltas deltas ! i = coordsFromDeltas deltas ! (i - 1) + deltas ! (i - 1)) \<and>
   (\<forall>m kx ky kz. initFromDeckTensorgrid B deck = Inr m \<and> deck ''DXV'' = Some kx \<and>
       deck ''DYV'' = Some ky \<and> deck ''DZV'' = Some kz \<longrightarrow>
      (\<exists>top_depths.
         ug m = create_grid_tensor3d B (int (length (SIDoubleData kx)))
                  (int (length (SIDoubleData ky))) (int (length (SIDoubleData kz)))
                  (Data (coordsFromDeltas (SIDoubleData kx)))
                  (Data (coordsFromDeltas (SIDoubleData ky)))
                  (Data (coordsFromDeltas (SIDoubleData kz))) top_depths))"
proof (intro conjI allI impI)
  show "length (coordsFromDeltas deltas) = length deltas + 1"
    by (rule length_coordsFromDeltas)
  show "coordsFromDeltas deltas ! 0 = 0"
    by (simp add: coordsFromDeltas_Cons)
next
  fix i assume "1 \<le> i \<and> i \<le> length deltas"
  then show "coordsFromDeltas deltas ! i = coordsFromDeltas deltas ! (i - 1) + deltas ! (i - 1)"
    by (simp add: coordsFromDeltas_step)
next
  fix m kx ky kz
  assume a: "initFromDeckTensorgrid B deck = Inr m \<and> deck ''DXV'' = Some kx \<and>
       deck ''DYV'' = Some ky \<and> deck ''DZV'' = Some kz"
  from tensor_Inr [of B deck m] a
  show "\<exists>top_depths.
         ug m = create_grid_tensor3d B (int (length (SIDoubleData kx)))
                  (int (length (SIDoubleData ky))) (int (length (SIDoubleData kz)))
                  (Data (coordsFromDeltas (SIDoubleData kx)))
                  (Data (coordsFromDeltas (SIDoubleData ky)))
                  (Data (coordsFromDeltas (SIDoubleData kz))) top_depths"
    by auto
qed

theorem coordsFromDeltas_cumulative_witness:
  "coordsFromDeltas [1, 2, 4] = [0, 1, 3, 7] \<and>
   coordsFromDeltas [1, 2, 4] ! 3 = coordsFromDeltas [1, 2, 4] ! 2 + [1, 2, 4] ! 2 \<and>
   initFromDeckTensorgrid echo_builders tensor_deck =
     Inr \<lparr>ug = Some (Built_tensor3d 2 2 1 (Data [0, 1, 2]) (Data [0, 1, 2]) (Data [0, 1]) Null)\<rparr> \<and>
   (\<exists>top_depths.
      Some (Built_tensor3d 2 2 1 (Data [0, 1, 2]) (Data [0, 1, 2]) (Data [0, 1]) Null) =
      create_grid_tensor3d echo_builders 2 2 1 (Data (coordsFromDeltas [1, 1]))
        (Data (coordsFromDeltas [1, 1])) (Data (coordsFromDeltas [1])) top_depths)"
proof -
  have step: "coordsFromDeltas [1, 2, 4] ! 3 = coordsFromDeltas [1, 2, 4] ! 2 + [1, 2, 4] ! 2"
    using coordsFromDeltas_cumulative [of "[1, 2, 4]" echo_builders tensor_deck] by simp
  have call: "\<exists>top_depths.
      Some (Built_tensor3d 2 2 1 (Data [0, 1, 2]) (Data [0, 1, 2]) (Data [0, 1]) Null) =
      create_grid_tensor3d echo_builders 2 2 1 (Data (coordsFromDeltas [1, 1]))
        (Data (coordsFromDeltas [1, 1])) (Data (coordsFromDeltas [1])) top_depths"
    using coordsFromDeltas_cumulative [of "[]" echo_builders tensor_deck] tensor_deck_result
    by (simp add: tensor_deck_def data_keyword_def)
  show ?thesis
    using step call tensor_deck_result by (simp add: coordsFromDeltas_Cons)
qed

section \<open>Dispatch on the keywords of the deck (C1)\<close>

lemma cornerpoint_ignores_tensor_builder:
  "initFromDeckCornerpoint (B\<lparr>create_grid_tensor3d := t\<rparr>) deck h = initFromDeckCornerpoint B deck h"
  by (simp add: initFromDeckCornerpoint_def split: prod.splits sum.splits)

lemma tensor_ignores_cornerpoint_builder:
  "initFromDeckTensorgrid (B\<lparr>create_grid_cornerpoint := c\<rparr>) deck = initFromDeckTensorgrid B deck"
  by (simp add: initFromDeckTensorgrid_def Let_def split: prod.splits sum.splits)

text \<open>
  Claim C1. The constructor from a deck takes the first matching branch, in this order:
  with both ZCORN and COORD in the deck it is the corner-point path, whatever else the
  deck holds (DXV, DYV and DZV included), and the tensor builder has no part in the
  result; otherwise, with all of DXV, DYV and DZV, it is the tensor-grid path, and the
  corner-point builder has no part in the result; otherwise construction fails with
  "Could not initialize grid from deck. Need either ZCORN + COORD or DXV + DYV + DZV
  keywords."
\<close>

theorem GridManager_deck_dispatch:
  "(hasKeyword deck ''ZCORN'' \<and> hasKeyword deck ''COORD'' \<longrightarrow>
      GridManager_deck B deck h = initFromDeckCornerpoint B deck h \<and>
      (\<forall>t. GridManager_deck (B\<lparr>create_grid_tensor3d := t\<rparr>) deck h = GridManager_deck B deck h)) \<and>
   (\<not> (hasKeyword deck ''ZCORN'' \<and> hasKeyword deck ''COORD'') \<and>
    hasKeyword deck ''DXV'' \<and> hasKeyword deck ''DYV'' \<and> hasKeyword deck ''DZV'' \<longrightarrow>
      GridManager_deck B deck h = (initFromDeckTensorgrid B deck, h) \<and>
      (\<forall>c. GridManager_deck (B\<lparr>create_grid_cornerpoint := c\<rparr>) deck h = GridManager_deck B deck h)) \<and>
   (\<not> (hasKeyword deck ''ZCORN'' \<and> hasKeyword deck ''COORD'') \<and>
    \<not> (hasKeyword deck ''DXV'' \<and> hasKeyword deck ''DYV'' \<and> hasKeyword deck ''DZV'') \<longrightarrow>
      GridManager_deck B deck h =
        (Inl (runtime_error
          ''Could not initialize grid from deck. Need either ZCORN + COORD or DXV + DYV + DZV keywords.''),
         h))"
  by (auto simp: GridManager_deck_def cornerpoint_ignores_tensor_builder
      tensor_ignores_cornerpoint_builder)

lemma both_deck_cornerpoint:
  "initFromDeckCornerpoint echo_builders both_deck [] =
     (Inr \<lparr>ug = Some (Built_cornerpoint
        \<lparr>dims = (1, 1, 1),
         coord = Data [0, 0, 0, 0, 0, 1, 1, 0, 0, 1, 0, 1, 0, 1, 0, 0, 1, 1, 1, 1, 0, 1, 1, 1],
         zcorn = Data [0, 0, 0, 0, 1, 1, 1, 1], actnum = Null, mapaxes = Null\<rparr> 0)\<rparr>, [])"
  by (simp add: initFromDeckCornerpoint_def createGrdecl_def both_deck_def echo_builders_def deck_eval)

theorem GridManager_deck_dispatch_witness:
  "hasKeyword both_deck ''ZCORN'' \<and> hasKeyword both_deck ''COORD'' \<and>
   hasKeyword both_deck ''DXV'' \<and> hasKeyword both_deck ''DYV'' \<and> hasKeyword both_deck ''DZV'' \<and>
   GridManager_deck echo_builders both_deck [] =
     (Inr \<lparr>ug = Some (Built_cornerpoint
        \<lparr>dims = (1, 1, 1),
         coord = Data [0, 0, 0, 0, 0, 1, 1, 0, 0, 1, 0, 1, 0, 1, 0, 0, 1, 1, 1, 1, 0, 1, 1, 1],
         zcorn = Data [0, 0, 0, 0, 1, 1, 1, 1], actnum = Null, mapaxes = Null\<rparr> 0)\<rparr>, []) \<and>
   \<not> hasKeyword tensor_deck ''ZCORN'' \<and> hasKeyword tensor_deck ''DXV'' \<and>
   hasKeyword tensor_deck ''DYV'' \<and> hasKeyword tensor_deck ''DZV'' \<and>
   GridManager_deck echo_builders tensor_deck [] =
     (Inr \<lparr>ug = Some (Built_tensor3d 2 2 1 (Data [0, 1, 2]) (Data [0, 1, 2]) (Data [0, 1]) Null)\<rparr>, []) \<and>
   hasKeyword no_grid_deck ''ZCORN'' \<and> \<not> hasKeyword no_grid_deck ''COORD'' \<and>
   \<not> hasKeyword no_grid_deck ''DZV'' \<and>
   GridManager_deck echo_builders no_grid_deck [] =
     (Inl (runtime_error
        ''Could not initialize grid from deck. Need either ZCORN + COORD or DXV + DYV + DZV keywords.''),
      [])"
proof -
  have k1: "hasKeyword both_deck ''ZCORN'' \<and> hasKeyword both_deck ''COORD'' \<and>
     hasKeyword both_deck ''DXV'' \<and> hasKeyword both_deck ''DYV'' \<and> hasKeyword both_deck ''DZV''"
    by (simp add: both_deck_def hasKeyword_def)
  have k2: "\<not> hasKeyword tensor_deck ''ZCORN'' \<and> hasKeyword tensor_deck ''DXV'' \<and>
     hasKeyword tensor_deck ''DYV'' \<and> hasKeyword tensor_deck ''DZV''"
    by (simp add: tensor_deck_def hasKeyword_def)
  have k3: "hasKeyword no_grid_deck ''ZCORN'' \<and> \<not> hasKeyword no_grid_deck ''COORD'' \<and>
     \<not> hasKeyword no_grid_deck ''DZV''"
    by (simp add: no_grid_deck_def hasKeyword_def)
  from k1 GridManager_deck_dispatch [of both_deck echo_builders "[]"]
  have r1: "GridManager_deck echo_builders both_deck [] =
      initFromDeckCornerpoint echo_builders both_deck []"
    by blast
  from k2 GridManager_deck_dispatch [of tensor_deck echo_builders "[]"]
  have r2: "GridManager_deck echo_builders tensor_deck [] =
      (initFromDeckTensorgrid echo_builders tensor_deck, [])"
    by blast
  from k3 GridManager_deck_dispatch [of no_grid_deck echo_builders "[]"]
  have r3: "GridManager_deck echo_builders no_grid_deck [] =
     (Inl (runtime_error
        ''Could not initialize grid from deck. Need either ZCORN + COORD or DXV + DYV + DZV keywords.''),
      [])"
    by blast
  show ?thesis
    using k1 k2 k3 r1 r2 r3 both_deck_cornerpoint tensor_deck_result by simp
qed

section \<open>The rule for the logical dimensions\<close>

lemma dims_of_keyword_first_record:
  assumes "record_list kw = (i0 # i1 # i2 # items) # rs"
    and "int_values i0 = a # as" and "int_values i1 = b # bs" and "int_values i2 = c # cs"
  shows "dims_of_keyword kw = Inr (a, b, c)"
  using assms by (simp add: dims_of_keyword_def record0_int_def getRecord_def getItem_def getInt_def)

lemma logical_dims_neither:
  "deck ''DIMENS'' = None \<Longrightarrow> deck ''SPECGRID'' = None \<Longrightarrow>
   logical_dims deck = Inl (runtime_error ''Deck must have either DIMENS or SPECGRID.'')"
  by (simp add: logical_dims_def hasKeyword_def)

lemma createGrdecl_dims_error:
  assumes "logical_dims deck = Inl e" and "deck ''ZCORN'' = Some zk" and "deck ''COORD'' = Some ck"
  shows "createGrdecl deck h = (Inl e, h)"
  using assms by (auto simp: createGrdecl_def getKeyword_def hasKeyword_def)

lemma createGrdecl_dims:
  assumes "createGrdecl deck h = (Inr g, h')"
  shows "logical_dims deck = Inr (dims g)"
  using assms unfolding createGrdecl_def Let_def
  by (auto split: sum.splits if_splits prod.splits option.splits)

lemma cornerpoint_dims_error:
  assumes "logical_dims deck = Inl e" and "deck ''ZCORN'' = Some zk" and "deck ''COORD'' = Some ck"
  shows "initFromDeckCornerpoint B deck h = (Inl e, h)"
  using assms by (simp add: initFromDeckCornerpoint_def createGrdecl_dims_error)

lemma tensor_dims_error:
  assumes "logical_dims deck = Inl e"
  shows "initFromDeckTensorgrid B deck = Inl e"
  using assms by (simp add: initFromDeckTensorgrid_def)

section \<open>Declared dimensions against the delta vectors (C6)\<close>

lemma top_depths_of_Inl:
  assumes "top_depths_of deck x y = Inl e"
  shows "e = deck_exception \<or> e = out_of_bounds \<or>
         e = runtime_error ''We do not support nonuniform TOPS, please use ZCORN/COORDS instead.'' \<or>
         (\<exists>n. e = runtime_error (''Incorrect size of DEPTHZ: '' @ string_of_nat n))"
  using assms unfolding top_depths_of_def getKeyword_def Let_def vector_at_def
  by (auto split: option.splits if_splits simp: and_then_Inl)

text \<open>Once the three delta keywords are there and the dimensions agree with them, the
  tensor path is the top-depth block followed by the call of the builder.\<close>

lemma tensor_dims_match:
  assumes "logical_dims deck = Inr (nx, ny, nz)"
    and "deck ''DXV'' = Some kx" and "deck ''DYV'' = Some ky" and "deck ''DZV'' = Some kz"
    and "nx = int (length (SIDoubleData kx))" and "ny = int (length (SIDoubleData ky))"
    and "nz = int (length (SIDoubleData kz))"
  shows "initFromDeckTensorgrid B deck =
     (case top_depths_of deck (coordsFromDeltas (SIDoubleData kx))
             (coordsFromDeltas (SIDoubleData ky)) of
        Inl e \<Rightarrow> Inl e
      | Inr top_depths \<Rightarrow>
          throw_if_null
            (create_grid_tensor3d B nx ny nz (Data (coordsFromDeltas (SIDoubleData kx)))
               (Data (coordsFromDeltas (SIDoubleData ky)))
               (Data (coordsFromDeltas (SIDoubleData kz))) top_depths)
            ''Failed to construct grid.'')"
  using assms by (simp add: initFromDeckTensorgrid_def getKeyword_def Let_def split: sum.splits)

lemma tensor_Inl_dims_match:
  assumes "logical_dims deck = Inr (nx, ny, nz)"
    and "deck ''DXV'' = Some kx" and "deck ''DYV'' = Some ky" and "deck ''DZV'' = Some kz"
    and "nx = int (length (SIDoubleData kx))" and "ny = int (length (SIDoubleData ky))"
    and "nz = int (length (SIDoubleData kz))"
    and "initFromDeckTensorgrid B deck = Inl e"
  shows "e = deck_exception \<or> e = out_of_bounds \<or> e = runtime_error ''Failed to construct grid.'' \<or>
         e = runtime_error ''We do not support nonuniform TOPS, please use ZCORN/COORDS instead.'' \<or>
         (\<exists>n. e = runtime_error (''Incorrect size of DEPTHZ: '' @ string_of_nat n))"
proof (cases "top_depths_of deck (coordsFromDeltas (SIDoubleData kx))
             (coordsFromDeltas (SIDoubleData ky))")
  case (Inl e')
  with assms(8) tensor_dims_match [OF assms(1-7), of B] have "e = e'" by simp
  with top_depths_of_Inl [OF Inl] show ?thesis by blast
next
  case (Inr td)
  with assms(8) tensor_dims_match [OF assms(1-7), of B] show ?thesis
    by (simp add: throw_if_null_Inl)
qed

lemma tensor_dxv_mismatch:
  assumes "logical_dims deck = Inr (nx, ny, nz)"
    and "deck ''DXV'' = Some kx" and "deck ''DYV'' = Some ky" and "deck ''DZV'' = Some kz"
    and "nx \<noteq> int (length (SIDoubleData kx))"
  shows "initFromDeckTensorgrid B deck = Inl (dims_mismatch ''DXV'')"
  using assms by (simp add: initFromDeckTensorgrid_def getKeyword_def dims_mismatch_def Let_def)

lemma tensor_dyv_mismatch:
  assumes "logical_dims deck = Inr (nx, ny, nz)"
    and "deck ''DXV'' = Some kx" and "deck ''DYV'' = Some ky" and "deck ''DZV'' = Some kz"
    and "nx = int (length (SIDoubleData kx))" and "ny \<noteq> int (length (SIDoubleData ky))"
  shows "initFromDeckTensorgrid B deck = Inl (dims_mismatch ''DYV'')"
  using assms by (simp add: initFromDeckTensorgrid_def getKeyword_def dims_mismatch_def Let_def)

lemma tensor_dzv_mismatch:
  assumes "logical_dims deck = Inr (nx, ny, nz)"
    and "deck ''DXV'' = Some kx" and "deck ''DYV'' = Some ky" and "deck ''DZV'' = Some kz"
    and "nx = int (length (SIDoubleData kx))" and "ny = int (length (SIDoubleData ky))"
    and "nz \<noteq> int (length (SIDoubleData kz))"
  shows "initFromDeckTensorgrid B deck = Inl (dims_mismatch ''DZV'')"
  using assms by (simp add: initFromDeckTensorgrid_def getKeyword_def dims_mismatch_def Let_def)

lemma tensor_no_mismatch:
  assumes "logical_dims deck = Inr (nx, ny, nz)"
    and "deck ''DXV'' = Some kx" and "deck ''DYV'' = Some ky" and "deck ''DZV'' = Some kz"
    and "nx = int (length (SIDoubleData kx))" and "ny = int (length (SIDoubleData ky))"
    and "nz = int (length (SIDoubleData kz))"
  shows "initFromDeckTensorgrid B deck \<noteq> Inl (dims_mismatch keyword)"
proof
  assume e: "initFromDeckTensorgrid B deck = Inl (dims_mismatch keyword)"
  from tensor_Inl_dims_match [OF assms e] show False
    by (auto simp: dims_mismatch_def)
qed


text \<open>
  Claim C6. In the tensor-grid path, with the dimensions resolved to \<open>(nx, ny, nz)\<close>,
  construction fails whenever they disagree with the lengths of the delta vectors: the
  error names DXV when \<open>nx\<close> is not the length of DXV, else DYV when \<open>ny\<close> is not the
  length of DYV, else DZV when \<open>nz\<close> is not the length of DZV, so any disagreement ends in
  an error that names an offending keyword. When all three lengths agree, the path
  raises no such error, for no keyword.
\<close>

theorem tensor_dims_check:
  "logical_dims deck = Inr (nx, ny, nz) \<and> deck ''DXV'' = Some kx \<and> deck ''DYV'' = Some ky \<and>
   deck ''DZV'' = Some kz \<longrightarrow>
     (nx \<noteq> int (length (SIDoubleData kx)) \<longrightarrow>
        initFromDeckTensorgrid B deck = Inl (dims_mismatch ''DXV'')) \<and>
     (nx = int (length (SIDoubleData kx)) \<and> ny \<noteq> int (length (SIDoubleData ky)) \<longrightarrow>
        initFromDeckTensorgrid B deck = Inl (dims_mismatch ''DYV'')) \<and>
     (nx = int (length (SIDoubleData kx)) \<and> ny = int (length (SIDoubleData ky)) \<and>
      nz \<noteq> int (length (SIDoubleData kz)) \<longrightarrow>
        initFromDeckTensorgrid B deck = Inl (dims_mismatch ''DZV'')) \<and>
     (nx \<noteq> int (length (SIDoubleData kx)) \<or> ny \<noteq> int (length (SIDoubleData ky)) \<or>
      nz \<noteq> int (length (SIDoubleData kz)) \<longrightarrow>
        (\<exists>keyword. keyword \<in> {''DXV'', ''DYV'', ''DZV''} \<and>
           initFromDeckTensorgrid B deck = Inl (dims_mismatch keyword))) \<and>
     (nx = int (length (SIDoubleData kx)) \<and> ny = int (length (SIDoubleData ky)) \<and>
      nz = int (length (SIDoubleData kz)) \<longrightarrow>
        (\<forall>keyword. initFromDeckTensorgrid B deck \<noteq> Inl (dims_mismatch keyword)))"
proof (intro impI conjI allI)
  assume a: "logical_dims deck = Inr (nx, ny, nz) \<and> deck ''DXV'' = Some kx \<and>
    deck ''DYV'' = Some ky \<and> deck ''DZV'' = Some kz"
  {
    assume "nx \<noteq> int (length (SIDoubleData kx))"
    with a show "initFromDeckTensorgrid B deck = Inl (dims_mismatch ''DXV'')"
      by (simp add: tensor_dxv_mismatch)
  next
    assume "nx = int (length (SIDoubleData kx)) \<and> ny \<noteq> int (length (SIDoubleData ky))"
    with a show "initFromDeckTensorgrid B deck = Inl (dims_mismatch ''DYV'')"
      by (simp add: tensor_dyv_mismatch)
  next
    assume "nx = int (length (SIDoubleData kx)) \<and> ny = int (length (SIDoubleData ky)) \<and>
      nz \<noteq> int (length (SIDoubleData kz))"
    with a show "initFromDeckTensorgrid B deck = Inl (dims_mismatch ''DZV'')"
      by (simp add: tensor_dzv_mismatch)
  next
    assume "nx \<noteq> int (length (SIDoubleData kx)) \<or> ny \<noteq> int (length (SIDoubleData ky)) \<or>
      nz \<noteq> int (length (SIDoubleData kz))"
    then consider "nx \<noteq> int (length (SIDoubleData kx))"
      | "nx = int (length (SIDoubleData kx))" "ny \<noteq> int (length (SIDoubleData ky))"
      | "nx = int (length (SIDoubleData kx))" "ny = int (length (SIDoubleData ky))"
        "nz \<noteq> int (length (SIDoubleData kz))"
      by blast
    then show "\<exists>keyword. keyword \<in> {''DXV'', ''DYV'', ''DZV''} \<and>
           initFromDeckTensorgrid B deck = Inl (dims_mismatch keyword)"
    proof cases
      case 1
      with a have "initFromDeckTensorgrid B deck = Inl (dims_mismatch ''DXV'')"
        by (simp add: tensor_dxv_mismatch)
      then show ?thesis by blast
    next
      case 2
      with a have "initFromDeckTensorgrid B deck = Inl (dims_mismatch ''DYV'')"
        by (simp add: tensor_dyv_mismatch)
      then show ?thesis by blast
    next
      case 3
      with a have "initFromDeckTensorgrid B deck = Inl (dims_mismatch ''DZV'')"
        by (simp add: tensor_dzv_mismatch)
      then show ?thesis by blast
    qed
  next
    fix keyword
    assume "nx = int (length (SIDoubleData kx)) \<and> ny = int (length (SIDoubleData ky)) \<and>
      nz = int (length (SIDoubleData kz))"
    with a show "initFromDeckTensorgrid B deck \<noteq> Inl (dims_mismatch keyword)"
      by (intro tensor_no_mismatch) simp_all
  }
qed

lemma dyv_mismatch_deck_dims: "logical_dims dyv_mismatch_deck = Inr (2, 2, 1)"
  by (simp add: dyv_mismatch_deck_def deck_eval)

lemma dzv_mismatch_deck_dims: "logical_dims dzv_mismatch_deck = Inr (2, 2, 1)"
  by (simp add: dzv_mismatch_deck_def deck_eval)

lemma specgrid_deck_dims: "logical_dims specgrid_deck = Inr (3, 1, 1)"
  by (simp add: specgrid_deck_def deck_eval)

lemma tensor_deck_dims: "logical_dims tensor_deck = Inr (2, 2, 1)"
  by (simp add: tensor_deck_def deck_eval)

theorem tensor_dims_check_witness:
  "initFromDeckTensorgrid echo_builders specgrid_deck =
     Inl (runtime_error ''Number of DXV data points do not match DIMENS or SPECGRID.'') \<and>
   initFromDeckTensorgrid echo_builders dyv_mismatch_deck =
     Inl (runtime_error ''Number of DYV data points do not match DIMENS or SPECGRID.'') \<and>
   initFromDeckTensorgrid echo_builders dzv_mismatch_deck =
     Inl (runtime_error ''Number of DZV data points do not match DIMENS or SPECGRID.'') \<and>
   initFromDeckTensorgrid echo_builders tensor_deck \<noteq>
     Inl (runtime_error ''Number of DXV data points do not match DIMENS or SPECGRID.'') \<and>
   initFromDeckTensorgrid echo_builders tensor_deck \<noteq>
     Inl (runtime_error ''Number of DYV data points do not match DIMENS or SPECGRID.'') \<and>
   initFromDeckTensorgrid echo_builders tensor_deck \<noteq>
     Inl (runtime_error ''Number of DZV data points do not match DIMENS or SPECGRID.'')"
proof -
  have x: "initFromDeckTensorgrid echo_builders specgrid_deck = Inl (dims_mismatch ''DXV'')"
    using tensor_dims_check [of specgrid_deck 3 1 1 "data_keyword [1, 1]" "data_keyword [1]"
        "data_keyword [1]" echo_builders] specgrid_deck_dims
    by (simp add: specgrid_deck_def data_keyword_def)
  have y: "initFromDeckTensorgrid echo_builders dyv_mismatch_deck = Inl (dims_mismatch ''DYV'')"
    using tensor_dims_check [of dyv_mismatch_deck 2 2 1 "data_keyword [1, 1]"
        "data_keyword [1, 1, 1]" "data_keyword [1]" echo_builders] dyv_mismatch_deck_dims
    by (simp add: dyv_mismatch_deck_def data_keyword_def)
  have z: "initFromDeckTensorgrid echo_builders dzv_mismatch_deck = Inl (dims_mismatch ''DZV'')"
    using tensor_dims_check [of dzv_mismatch_deck 2 2 1 "data_keyword [1, 1]"
        "data_keyword [1, 1]" "data_keyword [1, 1]" echo_builders] dzv_mismatch_deck_dims
    by (simp add: dzv_mismatch_deck_def data_keyword_def)
  have ok: "\<forall>keyword. initFromDeckTensorgrid echo_builders tensor_deck \<noteq> Inl (dims_mismatch keyword)"
    using tensor_dims_check [of tensor_deck 2 2 1 "data_keyword [1, 1]"
        "data_keyword [1, 1]" "data_keyword [1]" echo_builders] tensor_deck_dims
    by (simp add: tensor_deck_def data_keyword_def)
  from ok have "initFromDeckTensorgrid echo_builders tensor_deck \<noteq> Inl (dims_mismatch ''DXV'')"
    "initFromDeckTensorgrid echo_builders tensor_deck \<noteq> Inl (dims_mismatch ''DYV'')"
    "initFromDeckTensorgrid echo_builders tensor_deck \<noteq> Inl (dims_mismatch ''DZV'')"
    by blast+
  with x y z show ?thesis by (simp add: dims_mismatch_def)
qed

section \<open>Top depths from TOPS (C7)\<close>

lemma count_list_eq_length: "count_list xs t = length xs \<longleftrightarrow> (\<forall>v\<in>set xs. v = t)"
proof (induction xs)
  case Nil
  show ?case by simp
next
  case (Cons x xs)
  have "count_list xs t \<le> length xs" by (rule count_le_length)
  with Cons show ?case by auto
qed

lemma top_depths_of_tops:
  assumes "deck ''DEPTHZ'' = None" and "deck ''TOPS'' = Some kt" and "SIDoubleData kt = t # ts"
  shows "top_depths_of deck x y =
     (if \<forall>v\<in>set ts. v = t then Inr (Data (replicate (length x * length y) t))
      else Inl (runtime_error
             ''We do not support nonuniform TOPS, please use ZCORN/COORDS instead.''))"
proof -
  have "count_list (t # ts) t = length (t # ts) \<longleftrightarrow> (\<forall>v\<in>set ts. v = t)"
    using count_list_eq_length [of "t # ts" t] by simp
  then have "(int (count_list (t # ts) t) = int (length (t # ts))) \<longleftrightarrow> (\<forall>v\<in>set ts. v = t)"
    by (simp only: of_nat_eq_iff)
  with assms show ?thesis
    by (simp add: top_depths_of_def hasKeyword_def getKeyword_def vector_at_def Let_def
        del: count_list.simps list.size)
qed

lemma areal_nodes:
  "length (coordsFromDeltas dxv) * length (coordsFromDeltas dyv) =
   nat ((int (length dxv) + 1) * (int (length dyv) + 1))"
proof -
  have "(int (length dxv) + 1) * (int (length dyv) + 1) =
        int ((length dxv + 1) * (length dyv + 1))"
    by (simp add: algebra_simps)
  then show ?thesis
    by (simp only: length_coordsFromDeltas nat_int)
qed

text \<open>
  Claim C7. In the tensor-grid path, with DEPTHZ absent and TOPS present with first value
  \<open>t\<close>: when the earlier checks pass (dimensions resolved and equal to the lengths of the
  delta vectors) and every TOPS value equals \<open>t\<close>, the top-depth field handed to the
  builder is \<open>t\<close> repeated \<open>(nx + 1) * (ny + 1)\<close> times; when some TOPS value differs from
  \<open>t\<close>, construction fails, and once the earlier checks have passed the error is "We do
  not support nonuniform TOPS, please use ZCORN/COORDS instead."
\<close>

theorem tops_uniform_or_fail:
  "deck ''DEPTHZ'' = None \<and> deck ''TOPS'' = Some kt \<and> SIDoubleData kt = t # ts \<longrightarrow>
     (logical_dims deck = Inr (nx, ny, nz) \<and> deck ''DXV'' = Some kx \<and> deck ''DYV'' = Some ky \<and>
      deck ''DZV'' = Some kz \<and> nx = int (length (SIDoubleData kx)) \<and>
      ny = int (length (SIDoubleData ky)) \<and> nz = int (length (SIDoubleData kz)) \<longrightarrow>
        ((\<forall>v\<in>set ts. v = t) \<longrightarrow>
           initFromDeckTensorgrid B deck =
             throw_if_null
               (create_grid_tensor3d B nx ny nz (Data (coordsFromDeltas (SIDoubleData kx)))
                  (Data (coordsFromDeltas (SIDoubleData ky)))
                  (Data (coordsFromDeltas (SIDoubleData kz)))
                  (Data (replicate (nat ((nx + 1) * (ny + 1))) t)))
               ''Failed to construct grid.'') \<and>
        (\<not> (\<forall>v\<in>set ts. v = t) \<longrightarrow>
           initFromDeckTensorgrid B deck =
             Inl (runtime_error
                    ''We do not support nonuniform TOPS, please use ZCORN/COORDS instead.''))) \<and>
     (\<not> (\<forall>v\<in>set ts. v = t) \<longrightarrow> (\<exists>e. initFromDeckTensorgrid B deck = Inl e))"
proof (intro impI conjI)
  assume a: "deck ''DEPTHZ'' = None \<and> deck ''TOPS'' = Some kt \<and> SIDoubleData kt = t # ts"
  then have td: "top_depths_of deck x y =
     (if \<forall>v\<in>set ts. v = t then Inr (Data (replicate (length x * length y) t))
      else Inl (runtime_error
             ''We do not support nonuniform TOPS, please use ZCORN/COORDS instead.''))" for x y
    using top_depths_of_tops [of deck kt t ts x y] by blast
  {
    assume d: "logical_dims deck = Inr (nx, ny, nz) \<and> deck ''DXV'' = Some kx \<and>
      deck ''DYV'' = Some ky \<and> deck ''DZV'' = Some kz \<and> nx = int (length (SIDoubleData kx)) \<and>
      ny = int (length (SIDoubleData ky)) \<and> nz = int (length (SIDoubleData kz))"
    then have shape: "initFromDeckTensorgrid B deck =
     (case top_depths_of deck (coordsFromDeltas (SIDoubleData kx))
             (coordsFromDeltas (SIDoubleData ky)) of
        Inl e \<Rightarrow> Inl e
      | Inr top_depths \<Rightarrow>
          throw_if_null
            (create_grid_tensor3d B nx ny nz (Data (coordsFromDeltas (SIDoubleData kx)))
               (Data (coordsFromDeltas (SIDoubleData ky)))
               (Data (coordsFromDeltas (SIDoubleData kz))) top_depths)
            ''Failed to construct grid.'')"
      by (intro tensor_dims_match) simp_all
    from d have n: "length (coordsFromDeltas (SIDoubleData kx)) *
        length (coordsFromDeltas (SIDoubleData ky)) = nat ((nx + 1) * (ny + 1))"
      by (simp only: areal_nodes)
    {
      assume "\<forall>v\<in>set ts. v = t"
      with td have "top_depths_of deck (coordsFromDeltas (SIDoubleData kx))
             (coordsFromDeltas (SIDoubleData ky)) = Inr (Data (replicate (nat ((nx + 1) * (ny + 1))) t))"
        by (simp add: n)
      with shape show "initFromDeckTensorgrid B deck =
             throw_if_null
               (create_grid_tensor3d B nx ny nz (Data (coordsFromDeltas (SIDoubleData kx)))
                  (Data (coordsFromDeltas (SIDoubleData ky)))
                  (Data (coordsFromDeltas (SIDoubleData kz)))
                  (Data (replicate (nat ((nx + 1) * (ny + 1))) t)))
               ''Failed to construct grid.''"
        by simp
    next
      assume "\<not> (\<forall>v\<in>set ts. v = t)"
      with td have "top_depths_of deck (coordsFromDeltas (SIDoubleData kx))
             (coordsFromDeltas (SIDoubleData ky)) = Inl (runtime_error
                    ''We do not support nonuniform TOPS, please use ZCORN/COORDS instead.'')"
        by simp
      with shape show "initFromDeckTensorgrid B deck =
             Inl (runtime_error
                    ''We do not support nonuniform TOPS, please use ZCORN/COORDS instead.'')"
        by simp
    }
  next
    assume nonuni: "\<not> (\<forall>v\<in>set ts. v = t)"
    show "\<exists>e. initFromDeckTensorgrid B deck = Inl e"
    proof (cases "initFromDeckTensorgrid B deck")
      case (Inl e)
      then show ?thesis by blast
    next
      case (Inr m)
      from tensor_Inr [OF Inr] obtain nx' ny' nz' kx' ky' kz' where
        d: "logical_dims deck = Inr (nx', ny', nz')" "deck ''DXV'' = Some kx'"
          "deck ''DYV'' = Some ky'" "deck ''DZV'' = Some kz'"
          "nx' = int (length (SIDoubleData kx'))" "ny' = int (length (SIDoubleData ky'))"
          "nz' = int (length (SIDoubleData kz'))"
        by blast
      from nonuni td have "top_depths_of deck (coordsFromDeltas (SIDoubleData kx'))
             (coordsFromDeltas (SIDoubleData ky')) = Inl (runtime_error
                    ''We do not support nonuniform TOPS, please use ZCORN/COORDS instead.'')"
        by simp
      with tensor_dims_match [OF d, of B] Inr show ?thesis by simp
    qed
  }
qed


lemma uniform_tops_deck_dims: "logical_dims uniform_tops_deck = Inr (2, 2, 1)"
  by (simp add: uniform_tops_deck_def tensor_deck_def deck_eval)

lemma nonuniform_tops_deck_dims: "logical_dims nonuniform_tops_deck = Inr (2, 2, 1)"
  by (simp add: nonuniform_tops_deck_def tensor_deck_def deck_eval)

theorem tops_uniform_or_fail_witness:
  "initFromDeckTensorgrid echo_builders uniform_tops_deck =
     Inr \<lparr>ug = Some (Built_tensor3d 2 2 1 (Data [0, 1, 2]) (Data [0, 1, 2]) (Data [0, 1])
                        (Data [5, 5, 5, 5, 5, 5, 5, 5, 5]))\<rparr> \<and>
   initFromDeckTensorgrid echo_builders nonuniform_tops_deck =
     Inl (runtime_error ''We do not support nonuniform TOPS, please use ZCORN/COORDS instead.'') \<and>
   (\<exists>e. initFromDeckTensorgrid null_builders nonuniform_tops_deck = Inl e)"
proof -
  have u: "initFromDeckTensorgrid echo_builders uniform_tops_deck =
     throw_if_null
       (create_grid_tensor3d echo_builders 2 2 1 (Data (coordsFromDeltas [1, 1]))
          (Data (coordsFromDeltas [1, 1])) (Data (coordsFromDeltas [1]))
          (Data (replicate (nat ((2 + 1) * (2 + 1))) 5)))
       ''Failed to construct grid.''"
    using tops_uniform_or_fail [of uniform_tops_deck "data_keyword [5, 5, 5, 5]" 5 "[5, 5, 5]"
        2 2 1 "data_keyword [1, 1]" "data_keyword [1, 1]" "data_keyword [1]" echo_builders]
      uniform_tops_deck_dims
    by (simp add: uniform_tops_deck_def tensor_deck_def data_keyword_def)
  have n: "initFromDeckTensorgrid echo_builders nonuniform_tops_deck =
     Inl (runtime_error ''We do not support nonuniform TOPS, please use ZCORN/COORDS instead.'')"
    using tops_uniform_or_fail [of nonuniform_tops_deck "data_keyword [5, 5, 6, 5]" 5 "[5, 6, 5]"
        2 2 1 "data_keyword [1, 1]" "data_keyword [1, 1]" "data_keyword [1]" echo_builders]
      nonuniform_tops_deck_dims
    by (simp add: nonuniform_tops_deck_def tensor_deck_def data_keyword_def)
  have f: "\<exists>e. initFromDeckTensorgrid null_builders nonuniform_tops_deck = Inl e"
    using tops_uniform_or_fail [of nonuniform_tops_deck "data_keyword [5, 5, 6, 5]" 5 "[5, 6, 5]"
        2 2 1 "data_keyword [1, 1]" "data_keyword [1, 1]" "data_keyword [1]" null_builders]
    by (simp add: nonuniform_tops_deck_def tensor_deck_def data_keyword_def)
  have nine: "replicate 9 (5::real) = [5, 5, 5, 5, 5, 5, 5, 5, 5]"
    by (simp add: numeral_eq_Suc)
  from u n f show ?thesis
    by (simp add: nine echo_builders_def throw_if_null_def coordsFromDeltas_Cons)
qed

section \<open>DEPTHZ before TOPS (C9)\<close>

lemma top_depths_of_depthz:
  assumes "deck ''DEPTHZ'' = Some kd"
  shows "top_depths_of deck x y =
     (if length (SIDoubleData kd) \<noteq> length x * length y then
        Inl (runtime_error
               (''Incorrect size of DEPTHZ: '' @ string_of_nat (length (SIDoubleData kd))))
      else Inr (Data (SIDoubleData kd)))"
  using assms by (simp add: top_depths_of_def hasKeyword_def getKeyword_def Let_def)

lemma tensor_ignores_tops:
  assumes "hasKeyword deck ''DEPTHZ''"
  shows "initFromDeckTensorgrid B (deck(''TOPS'' := tops)) = initFromDeckTensorgrid B deck"
proof -
  from assms obtain kd where kd: "deck ''DEPTHZ'' = Some kd"
    by (auto simp: hasKeyword_def)
  have d: "logical_dims (deck(''TOPS'' := tops)) = logical_dims deck"
    by (simp add: logical_dims_def hasKeyword_def getKeyword_def)
  have t: "top_depths_of (deck(''TOPS'' := tops)) x y = top_depths_of deck x y" for x y
    using kd by (simp add: top_depths_of_depthz)
  have g: "getKeyword (deck(''TOPS'' := tops)) ''DXV'' = getKeyword deck ''DXV''"
    "getKeyword (deck(''TOPS'' := tops)) ''DYV'' = getKeyword deck ''DYV''"
    "getKeyword (deck(''TOPS'' := tops)) ''DZV'' = getKeyword deck ''DZV''"
    by (simp_all add: getKeyword_def)
  show ?thesis
    unfolding initFromDeckTensorgrid_def d t g by (rule refl)
qed

text \<open>
  Claim C9. In the tensor-grid path DEPTHZ takes precedence over TOPS. For every deck
  with DEPTHZ, the outcome is the same whatever the deck holds under TOPS (nothing,
  uniform values or values that differ), so TOPS is never examined; and when the
  dimension checks pass and DEPTHZ has \<open>(nx + 1) * (ny + 1)\<close> values, the DEPTHZ data is
  the top-depth field handed to the builder.
\<close>

theorem depthz_before_tops:
  "hasKeyword deck ''DEPTHZ'' \<longrightarrow>
     (\<forall>tops. initFromDeckTensorgrid B (deck(''TOPS'' := tops)) = initFromDeckTensorgrid B deck) \<and>
     (\<forall>kd. deck ''DEPTHZ'' = Some kd \<and> logical_dims deck = Inr (nx, ny, nz) \<and>
        deck ''DXV'' = Some kx \<and> deck ''DYV'' = Some ky \<and> deck ''DZV'' = Some kz \<and>
        nx = int (length (SIDoubleData kx)) \<and> ny = int (length (SIDoubleData ky)) \<and>
        nz = int (length (SIDoubleData kz)) \<and>
        length (SIDoubleData kd) = nat ((nx + 1) * (ny + 1)) \<longrightarrow>
          initFromDeckTensorgrid B deck =
            throw_if_null
              (create_grid_tensor3d B nx ny nz (Data (coordsFromDeltas (SIDoubleData kx)))
                 (Data (coordsFromDeltas (SIDoubleData ky)))
                 (Data (coordsFromDeltas (SIDoubleData kz))) (Data (SIDoubleData kd)))
              ''Failed to construct grid.'')"
proof (intro impI conjI allI)
  assume "hasKeyword deck ''DEPTHZ''"
  then show "initFromDeckTensorgrid B (deck(''TOPS'' := tops)) = initFromDeckTensorgrid B deck"
    for tops by (rule tensor_ignores_tops)
next
  fix kd
  assume a: "deck ''DEPTHZ'' = Some kd \<and> logical_dims deck = Inr (nx, ny, nz) \<and>
        deck ''DXV'' = Some kx \<and> deck ''DYV'' = Some ky \<and> deck ''DZV'' = Some kz \<and>
        nx = int (length (SIDoubleData kx)) \<and> ny = int (length (SIDoubleData ky)) \<and>
        nz = int (length (SIDoubleData kz)) \<and>
        length (SIDoubleData kd) = nat ((nx + 1) * (ny + 1))"
  then have shape: "initFromDeckTensorgrid B deck =
     (case top_depths_of deck (coordsFromDeltas (SIDoubleData kx))
             (coordsFromDeltas (SIDoubleData ky)) of
        Inl e \<Rightarrow> Inl e
      | Inr top_depths \<Rightarrow>
          throw_if_null
            (create_grid_tensor3d B nx ny nz (Data (coordsFromDeltas (SIDoubleData kx)))
               (Data (coordsFromDeltas (SIDoubleData ky)))
               (Data (coordsFromDeltas (SIDoubleData kz))) top_depths)
            ''Failed to construct grid.'')"
    by (intro tensor_dims_match) simp_all
  from a have n: "length (coordsFromDeltas (SIDoubleData kx)) *
        length (coordsFromDeltas (SIDoubleData ky)) = length (SIDoubleData kd)"
    by (simp only: areal_nodes)
  from a have "top_depths_of deck (coordsFromDeltas (SIDoubleData kx))
             (coordsFromDeltas (SIDoubleData ky)) = Inr (Data (SIDoubleData kd))"
    by (simp add: top_depths_of_depthz n)
  with shape show "initFromDeckTensorgrid B deck =
            throw_if_null
              (create_grid_tensor3d B nx ny nz (Data (coordsFromDeltas (SIDoubleData kx)))
                 (Data (coordsFromDeltas (SIDoubleData ky)))
                 (Data (coordsFromDeltas (SIDoubleData kz))) (Data (SIDoubleData kd)))
              ''Failed to construct grid.''"
    by simp
qed

lemma depthz_deck_dims: "logical_dims depthz_deck = Inr (2, 2, 1)"
  by (simp add: depthz_deck_def tensor_deck_def deck_eval)

theorem depthz_before_tops_witness:
  "hasKeyword depthz_deck ''DEPTHZ'' \<and> hasKeyword depthz_deck ''TOPS'' \<and>
   initFromDeckTensorgrid echo_builders depthz_deck =
     Inr \<lparr>ug = Some (Built_tensor3d 2 2 1 (Data [0, 1, 2]) (Data [0, 1, 2]) (Data [0, 1])
                        (Data [1, 2, 3, 4, 5, 6, 7, 8, 9]))\<rparr> \<and>
   initFromDeckTensorgrid echo_builders (depthz_deck(''TOPS'' := None)) =
     initFromDeckTensorgrid echo_builders depthz_deck"
proof -
  have k: "hasKeyword depthz_deck ''DEPTHZ'' \<and> hasKeyword depthz_deck ''TOPS''"
    by (simp add: depthz_deck_def hasKeyword_def)
  have nine: "length [1, 2, 3, 4, 5, 6, 7, 8, 9 :: real] = nat ((2 + 1) * (2 + 1))"
    by simp
  have r: "initFromDeckTensorgrid echo_builders depthz_deck =
     throw_if_null
       (create_grid_tensor3d echo_builders 2 2 1 (Data (coordsFromDeltas [1, 1]))
          (Data (coordsFromDeltas [1, 1])) (Data (coordsFromDeltas [1]))
          (Data [1, 2, 3, 4, 5, 6, 7, 8, 9]))
       ''Failed to construct grid.''"
    using depthz_before_tops [of depthz_deck echo_builders 2 2 1 "data_keyword [1, 1]"
        "data_keyword [1, 1]" "data_keyword [1]"] k depthz_deck_dims nine
    by (simp add: depthz_deck_def tensor_deck_def data_keyword_def)
  have i: "initFromDeckTensorgrid echo_builders (depthz_deck(''TOPS'' := None)) =
     initFromDeckTensorgrid echo_builders depthz_deck"
    using depthz_before_tops [of depthz_deck echo_builders 2 2 1 "data_keyword [1, 1]"
        "data_keyword [1, 1]" "data_keyword [1]"] k
    by blast
  from k r i show ?thesis
    by (simp add: echo_builders_def throw_if_null_def coordsFromDeltas_Cons)
qed

section \<open>The read of the first TOPS value (C10)\<close>

text \<open>
  Claim C10 says that the unconditional read of \<^verbatim>\<open>tops[0]\<close> is in bounds for every deck
  that takes the TOPS branch. The deck \<open>empty_tops_deck\<close> has the TOPS keyword with no
  value, and nothing before the read looks at the size of the vector: the read is past
  the end, for every choice of builders.
\<close>

theorem empty_tops_out_of_bounds:
  "hasKeyword empty_tops_deck ''TOPS'' \<and> \<not> hasKeyword empty_tops_deck ''DEPTHZ'' \<and>
   SIDoubleData (the (empty_tops_deck ''TOPS'')) = [] \<and>
   initFromDeckTensorgrid B empty_tops_deck = Inl out_of_bounds \<and>
   GridManager_deck B empty_tops_deck h = (Inl out_of_bounds, h)"
  by (simp add: GridManager_deck_def initFromDeckTensorgrid_def empty_tops_deck_def
      tensor_deck_def deck_eval coordsFromDeltas_Cons)

section \<open>MAPAXES in the corner-point record (C8)\<close>

lemma mapaxes_loop_fills:
  assumes "\<forall>it\<in>set r. SI_double_values it \<noteq> []"
    and "a < length h" and "length (h ! a) = length r" and "i \<le> length r"
  shows "mapaxes_loop r i a h =
     (None, h[a := take i (h ! a) @ map Some (drop i (record_SI_values r))])"
  using assms
proof (induction r i a h rule: mapaxes_loop.induct)
  case (1 r i a h)
  show ?case
  proof (cases "i < length r")
    case False
    then have stop: "mapaxes_loop r i a h = (None, h)"
      by (subst mapaxes_loop.simps) simp
    from False "1.prems" have "i = length r" by simp
    with "1.prems" have "h[a := take i (h ! a) @ map Some (drop i (record_SI_values r))] = h"
      by (simp add: record_SI_values_def)
    with stop show ?thesis by simp
  next
    case True
    with "1.prems" have ne: "SI_double_values (r ! i) \<noteq> []" by simp
    then have v: "and_then (getItem r i) (\<lambda>it. getSIDouble it 0) = Inr (hd (SI_double_values (r ! i)))"
      using True by (simp add: getItem_def getSIDouble_def hd_conv_nth)
    let ?v = "hd (SI_double_values (r ! i))"
    let ?h = "store h a i ?v"
    from "1.prems" have h': "a < length ?h" "length (?h ! a) = length r" "Suc i \<le> length r"
      using True by (simp_all add: store_def)
    from "1.IH" [OF True v "1.prems"(1) h']
    have "mapaxes_loop r (Suc i) a ?h =
       (None, ?h[a := take (Suc i) (?h ! a) @ map Some (drop (Suc i) (record_SI_values r))])" .
    moreover have "take (Suc i) (?h ! a) = take i (h ! a) @ [Some ?v]"
      using "1.prems" True by (simp add: store_def take_Suc_conv_app_nth)
    moreover have "drop i (record_SI_values r) = ?v # drop (Suc i) (record_SI_values r)"
      using True by (simp add: record_SI_values_def Cons_nth_drop_Suc [symmetric])
    moreover have "mapaxes_loop r i a h = mapaxes_loop r (Suc i) a ?h"
      using True v by (subst mapaxes_loop.simps) simp
    ultimately show ?thesis
      using "1.prems" by (simp add: store_def)
  qed
qed


lemma mapaxes_block:
  assumes "\<forall>it\<in>set r. SI_double_values it \<noteq> []"
  shows "mapaxes_loop r 0 (length h) (h @ [replicate (length r) None]) =
     (None, h @ [map Some (record_SI_values r)])"
  using mapaxes_loop_fills [of r "length h" "h @ [replicate (length r) None]" 0] assms
  by simp

lemma record_SI_values_nth:
  assumes "\<forall>it\<in>set r. SI_double_values it \<noteq> []" and "i < length r"
  shows "getSIDouble (r ! i) 0 = Inr (record_SI_values r ! i)"
  using assms by (simp add: getSIDouble_def record_SI_values_def hd_conv_nth)

text \<open>What \<^verbatim>\<open>createGrdecl\<close> returns once ZCORN, COORD and the dimensions are there.\<close>

lemma createGrdecl_with_mapaxes:
  assumes "deck ''ZCORN'' = Some zk" and "deck ''COORD'' = Some ck"
    and "logical_dims deck = Inr ds"
    and "deck ''MAPAXES'' = Some mk" and "record_list mk = r # rs"
    and "\<forall>it\<in>set r. SI_double_values it \<noteq> []"
  shows "createGrdecl deck h =
     (Inr \<lparr>dims = ds, coord = Data (SIDoubleData ck), zcorn = Data (SIDoubleData zk),
            actnum = (case deck ''ACTNUM'' of None \<Rightarrow> Null | Some ak \<Rightarrow> Data (IntData ak)),
            mapaxes = Malloced (length h)\<rparr>,
      h @ [map Some (record_SI_values r)])"
  using assms
  by (cases "deck ''ACTNUM''")
    (simp_all add: createGrdecl_def hasKeyword_def getKeyword_def getRecord_def malloc_def
      mapaxes_block)

lemma createGrdecl_without_mapaxes:
  assumes "deck ''ZCORN'' = Some zk" and "deck ''COORD'' = Some ck"
    and "logical_dims deck = Inr ds" and "deck ''MAPAXES'' = None"
  shows "createGrdecl deck h =
     (Inr \<lparr>dims = ds, coord = Data (SIDoubleData ck), zcorn = Data (SIDoubleData zk),
            actnum = (case deck ''ACTNUM'' of None \<Rightarrow> Null | Some ak \<Rightarrow> Data (IntData ak)),
            mapaxes = Null\<rparr>,
      h)"
  using assms
  by (cases "deck ''ACTNUM''")
    (simp_all add: createGrdecl_def hasKeyword_def getKeyword_def)


text \<open>
  Claim C8. In \<^verbatim>\<open>createGrdecl\<close>, with the MAPAXES keyword in the deck (and a value in each
  item of its first record), the \<^verbatim>\<open>mapaxes\<close> field of the record points to a block that
  \<^verbatim>\<open>malloc\<close> has just returned: its number is not one of the heap before the call, every
  earlier block is unchanged, it has as many cells as the record has items, and cell \<open>i\<close>
  holds the SI value of item \<open>i\<close>. The manager does not free the block: the corner-point
  builder is called with the record and with the heap that holds the block, and what
  the builder leaves of the heap is what the constructor leaves. Without the keyword
  \<^verbatim>\<open>mapaxes\<close> is null, in the record that the builder receives, and the heap is untouched.
\<close>

theorem createGrdecl_mapaxes:
  "deck ''ZCORN'' = Some zk \<and> deck ''COORD'' = Some ck \<and> logical_dims deck = Inr ds \<longrightarrow>
     (deck ''MAPAXES'' = Some mk \<and> record_list mk = r # rs \<and>
      (\<forall>it\<in>set r. SI_double_values it \<noteq> []) \<longrightarrow>
        (\<exists>g block.
           createGrdecl deck h = (Inr g, h @ [block]) \<and>
           mapaxes g = Malloced (length h) \<and>
           length block = length r \<and>
           (\<forall>i<length r. \<exists>v. getSIDouble (r ! i) 0 = Inr v \<and> block ! i = Some v) \<and>
           dims g = ds \<and> coord g = Data (SIDoubleData ck) \<and> zcorn g = Data (SIDoubleData zk) \<and>
           initFromDeckCornerpoint B deck h =
             (case create_grid_cornerpoint B g 0 (h @ [block]) of
                (u, h2) \<Rightarrow> (throw_if_null u ''Failed to construct grid.'', h2)))) \<and>
     (deck ''MAPAXES'' = None \<longrightarrow>
        (\<exists>g.
           createGrdecl deck h = (Inr g, h) \<and>
           mapaxes g = Null \<and>
           dims g = ds \<and> coord g = Data (SIDoubleData ck) \<and> zcorn g = Data (SIDoubleData zk) \<and>
           initFromDeckCornerpoint B deck h =
             (case create_grid_cornerpoint B g 0 h of
                (u, h2) \<Rightarrow> (throw_if_null u ''Failed to construct grid.'', h2))))"
proof (intro impI conjI)
  assume a: "deck ''ZCORN'' = Some zk \<and> deck ''COORD'' = Some ck \<and> logical_dims deck = Inr ds"
  {
    assume m: "deck ''MAPAXES'' = Some mk \<and> record_list mk = r # rs \<and>
      (\<forall>it\<in>set r. SI_double_values it \<noteq> [])"
    let ?block = "map Some (record_SI_values r)"
    let ?g = "\<lparr>dims = ds, coord = Data (SIDoubleData ck), zcorn = Data (SIDoubleData zk),
            actnum = (case deck ''ACTNUM'' of None \<Rightarrow> Null | Some ak \<Rightarrow> Data (IntData ak)),
            mapaxes = Malloced (length h)\<rparr>"
    from a m have c: "createGrdecl deck h = (Inr ?g, h @ [?block])"
      using createGrdecl_with_mapaxes [of deck zk ck ds mk r rs h] by simp
    have len: "length ?block = length r"
      by (simp add: record_SI_values_def)
    have vals: "\<forall>i<length r. \<exists>v. getSIDouble (r ! i) 0 = Inr v \<and> ?block ! i = Some v"
      using m by (simp add: record_SI_values_nth) (simp add: record_SI_values_def)
    have call: "initFromDeckCornerpoint B deck h =
             (case create_grid_cornerpoint B ?g 0 (h @ [?block]) of
                (u, h2) \<Rightarrow> (throw_if_null u ''Failed to construct grid.'', h2))"
      by (simp add: initFromDeckCornerpoint_def c)
    from c len vals call
    show "\<exists>g block.
           createGrdecl deck h = (Inr g, h @ [block]) \<and>
           mapaxes g = Malloced (length h) \<and>
           length block = length r \<and>
           (\<forall>i<length r. \<exists>v. getSIDouble (r ! i) 0 = Inr v \<and> block ! i = Some v) \<and>
           dims g = ds \<and> coord g = Data (SIDoubleData ck) \<and> zcorn g = Data (SIDoubleData zk) \<and>
           initFromDeckCornerpoint B deck h =
             (case create_grid_cornerpoint B g 0 (h @ [block]) of
                (u, h2) \<Rightarrow> (throw_if_null u ''Failed to construct grid.'', h2))"
      by (intro exI [of _ ?g] exI [of _ ?block]) simp
  next
    assume m: "deck ''MAPAXES'' = None"
    let ?g = "\<lparr>dims = ds, coord = Data (SIDoubleData ck), zcorn = Data (SIDoubleData zk),
            actnum = (case deck ''ACTNUM'' of None \<Rightarrow> Null | Some ak \<Rightarrow> Data (IntData ak)),
            mapaxes = Null\<rparr>"
    from a m have c: "createGrdecl deck h = (Inr ?g, h)"
      using createGrdecl_without_mapaxes [of deck zk ck ds h] by simp
    have call: "initFromDeckCornerpoint B deck h =
             (case create_grid_cornerpoint B ?g 0 h of
                (u, h2) \<Rightarrow> (throw_if_null u ''Failed to construct grid.'', h2))"
      by (simp add: initFromDeckCornerpoint_def c)
    from c call
    show "\<exists>g.
           createGrdecl deck h = (Inr g, h) \<and>
           mapaxes g = Null \<and>
           dims g = ds \<and> coord g = Data (SIDoubleData ck) \<and> zcorn g = Data (SIDoubleData zk) \<and>
           initFromDeckCornerpoint B deck h =
             (case create_grid_cornerpoint B g 0 h of
                (u, h2) \<Rightarrow> (throw_if_null u ''Failed to construct grid.'', h2))"
      by (intro exI [of _ ?g]) simp
  }
qed

lemma mapaxes_deck_dims: "logical_dims mapaxes_deck = Inr (1, 1, 1)"
  by (simp add: mapaxes_deck_def both_deck_def deck_eval)

lemma both_deck_dims: "logical_dims both_deck = Inr (1, 1, 1)"
  by (simp add: both_deck_def deck_eval)

theorem createGrdecl_mapaxes_witness:
  "(\<exists>g block.
      createGrdecl mapaxes_deck [[Some 9]] = (Inr g, [[Some 9], block]) \<and>
      mapaxes g = Malloced 1 \<and> length block = 6 \<and> block ! 1 = Some 1 \<and> block ! 2 = Some 0 \<and>
      initFromDeckCornerpoint echo_builders mapaxes_deck [[Some 9]] =
        (Inr \<lparr>ug = Some (Built_cornerpoint g 0)\<rparr>, [[Some 9], block])) \<and>
   (\<exists>g. createGrdecl both_deck [[Some 9]] = (Inr g, [[Some 9]]) \<and> mapaxes g = Null \<and>
      initFromDeckCornerpoint echo_builders both_deck [[Some 9]] =
        (Inr \<lparr>ug = Some (Built_cornerpoint g 0)\<rparr>, [[Some 9]]))"
proof -
  let ?items = "map double_item [0, 1, 0, 0, 1, 0]"
  have ne: "\<forall>it\<in>set ?items. SI_double_values it \<noteq> []"
    by (simp add: double_item_def)
  from createGrdecl_mapaxes [of mapaxes_deck "data_keyword [0, 0, 0, 0, 1, 1, 1, 1]"
      "data_keyword [0, 0, 0, 0, 0, 1, 1, 0, 0, 1, 0, 1, 0, 1, 0, 0, 1, 1, 1, 1, 0, 1, 1, 1]"
      "(1, 1, 1)"
      "\<lparr>SIDoubleData = [], IntData = [], record_list = [?items]\<rparr>" ?items "[]"
      "[[Some 9]]" echo_builders] mapaxes_deck_dims ne
  obtain g block where
    gb: "createGrdecl mapaxes_deck [[Some 9]] = (Inr g, [[Some 9]] @ [block])"
      "mapaxes g = Malloced (length [[Some (9::real)]])" "length block = length ?items"
      "\<forall>i<length ?items. \<exists>v. getSIDouble (?items ! i) 0 = Inr v \<and> block ! i = Some v"
      "initFromDeckCornerpoint echo_builders mapaxes_deck [[Some 9]] =
         (case create_grid_cornerpoint echo_builders g 0 ([[Some 9]] @ [block]) of
            (u, h2) \<Rightarrow> (throw_if_null u ''Failed to construct grid.'', h2))"
    by (auto simp: mapaxes_deck_def both_deck_def data_keyword_def)
  from gb(4) [rule_format, of 1] gb(4) [rule_format, of 2]
  have "\<exists>v. getSIDouble (?items ! 1) 0 = Inr v \<and> block ! 1 = Some v"
    "\<exists>v. getSIDouble (?items ! 2) 0 = Inr v \<and> block ! 2 = Some v"
    by simp_all
  then have b: "block ! 1 = Some 1" "block ! 2 = Some 0"
    by (simp_all add: getSIDouble_def double_item_def)
  from createGrdecl_mapaxes [of both_deck "data_keyword [0, 0, 0, 0, 1, 1, 1, 1]"
      "data_keyword [0, 0, 0, 0, 0, 1, 1, 0, 0, 1, 0, 1, 0, 1, 0, 0, 1, 1, 1, 1, 0, 1, 1, 1]"
      "(1, 1, 1)" _ _ _ "[[Some 9]]" echo_builders] both_deck_dims
  obtain g' where
    g': "createGrdecl both_deck [[Some 9]] = (Inr g', [[Some 9]])" "mapaxes g' = Null"
      "initFromDeckCornerpoint echo_builders both_deck [[Some 9]] =
         (case create_grid_cornerpoint echo_builders g' 0 [[Some 9]] of
            (u, h2) \<Rightarrow> (throw_if_null u ''Failed to construct grid.'', h2))"
    by (auto simp: both_deck_def data_keyword_def)
  from gb b g' show ?thesis
    by (auto simp: echo_builders_def throw_if_null_def)
qed

section \<open>What every constructor returns\<close>

lemma throw_if_null_cases:
  "(u \<noteq> None \<longrightarrow> throw_if_null u msg = Inr \<lparr>ug = u\<rparr>) \<and>
   (u = None \<longrightarrow> throw_if_null u msg = Inl (runtime_error msg))"
  by (simp add: throw_if_null_def)

lemma cornerpoint_Inr:
  assumes "fst (initFromDeckCornerpoint B deck h) = Inr m"
  shows "ug m \<noteq> None \<and> (\<exists>g h1. createGrdecl deck h = (Inr g, h1) \<and>
           ug m = fst (create_grid_cornerpoint B g 0 h1))"
  using assms unfolding initFromDeckCornerpoint_def
  by (auto split: prod.splits sum.splits simp: throw_if_null_Inr)

lemma mapaxes_loop_error:
  "mapaxes_loop r i a h = (Some e, h') \<Longrightarrow> e = deck_exception"
proof (induction r i a h rule: mapaxes_loop.induct)
  case (1 r i a h)
  show ?case
  proof (cases "i < length r")
    case False
    with "1.prems" show ?thesis by (subst (asm) mapaxes_loop.simps) simp
  next
    case True
    show ?thesis
    proof (cases "and_then (getItem r i) (\<lambda>it. getSIDouble it 0)")
      case (Inl e')
      with True "1.prems" have "e = e'" by (subst (asm) mapaxes_loop.simps) simp
      with Inl show ?thesis
        by (auto simp: and_then_Inl getItem_def getSIDouble_def split: if_splits)
    next
      case (Inr v)
      with True "1.prems" have "mapaxes_loop r (Suc i) a (store h a i v) = (Some e, h')"
        by (subst (asm) mapaxes_loop.simps) simp
      from "1.IH" [OF True Inr this] show ?thesis .
    qed
  qed
qed

lemma logical_dims_Inl:
  assumes "logical_dims deck = Inl e"
  shows "e = deck_exception \<or> e = runtime_error ''Deck must have either DIMENS or SPECGRID.''"
  using assms
  unfolding logical_dims_def dims_of_keyword_def record0_int_def getKeyword_def getRecord_def
    getItem_def getInt_def
  by (auto simp: and_then_Inl split: if_splits option.splits)


lemma createGrdecl_Inl:
  assumes "createGrdecl deck h = (Inl e, h')"
  shows "e = deck_exception \<or> e = runtime_error ''Deck must have either DIMENS or SPECGRID.''"
proof (cases "logical_dims deck")
  case (Inl e')
  from logical_dims_Inl [OF Inl] assms Inl show ?thesis
    unfolding createGrdecl_def getKeyword_def
    by (auto simp: and_then_Inl split: option.splits if_splits sum.splits)
next
  case (Inr ds)
  with assms show ?thesis
    unfolding createGrdecl_def getKeyword_def getRecord_def malloc_def Let_def
    by (auto simp: and_then_Inl split: option.splits if_splits sum.splits prod.splits
        dest: mapaxes_loop_error)
qed

lemma cornerpoint_Inl:
  assumes "fst (initFromDeckCornerpoint B deck h) = Inl e"
  shows "e = deck_exception \<or> e = runtime_error ''Deck must have either DIMENS or SPECGRID.'' \<or>
         e = runtime_error ''Failed to construct grid.''"
proof (cases "createGrdecl deck h")
  case (Pair r h1)
  show ?thesis
  proof (cases r)
    case (Inl e')
    with Pair assms have "e = e'" by (simp add: initFromDeckCornerpoint_def)
    with createGrdecl_Inl [of deck h e' h1] Pair Inl show ?thesis by blast
  next
    case (Inr g)
    with Pair assms show ?thesis
      by (auto simp: initFromDeckCornerpoint_def throw_if_null_Inl split: prod.splits)
  qed
qed

lemma tensor_Inl:
  assumes "initFromDeckTensorgrid B deck = Inl e"
  shows "e = deck_exception \<or> e = out_of_bounds \<or> (\<exists>msg. e = runtime_error msg)"
proof (cases "logical_dims deck")
  case (Inl e')
  with assms have "e = e'" by (simp add: initFromDeckTensorgrid_def)
  with logical_dims_Inl [OF Inl] show ?thesis by blast
next
  case (Inr ds)
  obtain nx ny nz where ds: "ds = (nx, ny, nz)" by (cases ds) auto
  show ?thesis
  proof (cases "\<exists>kx ky kz. deck ''DXV'' = Some kx \<and> deck ''DYV'' = Some ky \<and> deck ''DZV'' = Some kz")
    case False
    with assms Inr ds have "e = deck_exception"
      by (auto simp: initFromDeckTensorgrid_def getKeyword_def split: option.splits)
    then show ?thesis by simp
  next
    case True
    then obtain kx ky kz where k: "deck ''DXV'' = Some kx" "deck ''DYV'' = Some ky"
      "deck ''DZV'' = Some kz" by blast
    note d = Inr [unfolded ds]
    consider "nx \<noteq> int (length (SIDoubleData kx))"
      | "nx = int (length (SIDoubleData kx))" "ny \<noteq> int (length (SIDoubleData ky))"
      | "nx = int (length (SIDoubleData kx))" "ny = int (length (SIDoubleData ky))"
        "nz \<noteq> int (length (SIDoubleData kz))"
      | "nx = int (length (SIDoubleData kx))" "ny = int (length (SIDoubleData ky))"
        "nz = int (length (SIDoubleData kz))"
      by blast
    then show ?thesis
    proof cases
      case 1
      from tensor_dxv_mismatch [OF d k 1, of B] assms show ?thesis
        by (simp add: dims_mismatch_def)
    next
      case 2
      from tensor_dyv_mismatch [OF d k 2, of B] assms show ?thesis
        by (simp add: dims_mismatch_def)
    next
      case 3
      from tensor_dzv_mismatch [OF d k 3, of B] assms show ?thesis
        by (simp add: dims_mismatch_def)
    next
      case 4
      from tensor_Inl_dims_match [OF d k 4 assms] show ?thesis by blast
    qed
  qed
qed

text \<open>Whether the tensor path reaches the builder does not depend on the builders.\<close>

lemma tensor_null_builder:
  assumes "initFromDeckTensorgrid B' deck = Inr m'"
    and "\<forall>nx ny nz x y z t. create_grid_tensor3d B nx ny nz x y z t = None"
  shows "initFromDeckTensorgrid B deck = Inl (runtime_error ''Failed to construct grid.'')"
proof -
  from tensor_Inr [OF assms(1)] obtain nx ny nz kx ky kz where
    d: "logical_dims deck = Inr (nx, ny, nz)" "deck ''DXV'' = Some kx"
      "deck ''DYV'' = Some ky" "deck ''DZV'' = Some kz"
      "nx = int (length (SIDoubleData kx))" "ny = int (length (SIDoubleData ky))"
      "nz = int (length (SIDoubleData kz))"
    by blast
  show ?thesis
  proof (cases "top_depths_of deck (coordsFromDeltas (SIDoubleData kx))
             (coordsFromDeltas (SIDoubleData ky))")
    case (Inl e)
    with tensor_dims_match [OF d, of B'] assms(1) show ?thesis by simp
  next
    case (Inr td)
    with tensor_dims_match [OF d, of B] assms(2) show ?thesis
      by (simp add: throw_if_null_def)
  qed
qed


text \<open>
  The outcomes of the seven constructors. The five constructors for cartesian grids
  and grid files return a manager that holds the builder's grid exactly when the builder
  returns one, and fail with "Failed to construct grid." (for a file: "Failed to read
  grid from file " followed by the path) when it returns null. The constructor from an
  EclipseGrid returns a manager that holds the non-null grid the corner-point builder
  made from the exported vectors, or fails with "Failed to construct grid." A manager
  that the constructor from a deck returns holds a non-null grid that one of the two
  builders returned; it fails with "Failed to construct grid." when the builder it
  reaches returns null; and each of its failures is a runtime error with a message, an
  exception raised inside the deck library, or the read past the end of an empty TOPS
  vector. A failure never comes with a manager.
\<close>

theorem constructors_mesh_or_error:
  "(create_grid_cart2d B nx ny 1 1 \<noteq> None \<longrightarrow>
      GridManager_2d B nx ny = Inr \<lparr>ug = create_grid_cart2d B nx ny 1 1\<rparr>) \<and>
   (create_grid_cart2d B nx ny 1 1 = None \<longrightarrow>
      GridManager_2d B nx ny = Inl (runtime_error ''Failed to construct grid.'')) \<and>
   (create_grid_cart2d B nx ny dx dy \<noteq> None \<longrightarrow>
      GridManager_2d_sized B nx ny dx dy = Inr \<lparr>ug = create_grid_cart2d B nx ny dx dy\<rparr>) \<and>
   (create_grid_cart2d B nx ny dx dy = None \<longrightarrow>
      GridManager_2d_sized B nx ny dx dy = Inl (runtime_error ''Failed to construct grid.'')) \<and>
   (create_grid_cart3d B nx ny nz \<noteq> None \<longrightarrow>
      GridManager_3d B nx ny nz = Inr \<lparr>ug = create_grid_cart3d B nx ny nz\<rparr>) \<and>
   (create_grid_cart3d B nx ny nz = None \<longrightarrow>
      GridManager_3d B nx ny nz = Inl (runtime_error ''Failed to construct grid.'')) \<and>
   (create_grid_hexa3d B nx ny nz dx dy dz \<noteq> None \<longrightarrow>
      GridManager_3d_sized B nx ny nz dx dy dz =
        Inr \<lparr>ug = create_grid_hexa3d B nx ny nz dx dy dz\<rparr>) \<and>
   (create_grid_hexa3d B nx ny nz dx dy dz = None \<longrightarrow>
      GridManager_3d_sized B nx ny nz dx dy dz =
        Inl (runtime_error ''Failed to construct grid.'')) \<and>
   (read_grid B input_filename \<noteq> None \<longrightarrow>
      GridManager_file B input_filename = Inr \<lparr>ug = read_grid B input_filename\<rparr>) \<and>
   (read_grid B input_filename = None \<longrightarrow>
      GridManager_file B input_filename =
        Inl (runtime_error (''Failed to read grid from file '' @ input_filename))) \<and>
   (\<forall>m. fst (GridManager_eclipseGrid B eclipseGrid h) = Inr m \<longrightarrow>
      ug m \<noteq> None \<and>
      ug m = fst (create_grid_cornerpoint B
                    \<lparr>dims = (getNX eclipseGrid, getNY eclipseGrid, getNZ eclipseGrid),
                     coord = vector_data (exportCOORD eclipseGrid),
                     zcorn = vector_data (exportZCORN eclipseGrid),
                     actnum = vector_data (exportACTNUM eclipseGrid),
                     mapaxes = vector_data (exportMAPAXES eclipseGrid)\<rparr> 0 h)) \<and>
   (\<forall>e. fst (GridManager_eclipseGrid B eclipseGrid h) = Inl e \<longrightarrow>
      e = runtime_error ''Failed to construct grid.'') \<and>
   (\<forall>m. fst (GridManager_deck B deck h) = Inr m \<longrightarrow>
      ug m \<noteq> None \<and>
      ((\<exists>g h1. ug m = fst (create_grid_cornerpoint B g 0 h1)) \<or>
       (\<exists>nx ny nz x y z t. ug m = create_grid_tensor3d B nx ny nz x y z t))) \<and>
   (\<forall>e. fst (GridManager_deck B deck h) = Inl e \<longrightarrow>
      e = deck_exception \<or> e = out_of_bounds \<or> (\<exists>msg. e = runtime_error msg)) \<and>
   (\<forall>g h1. createGrdecl deck h = (Inr g, h1) \<and> fst (create_grid_cornerpoint B g 0 h1) = None \<longrightarrow>
      fst (initFromDeckCornerpoint B deck h) = Inl (runtime_error ''Failed to construct grid.'')) \<and>
   (\<forall>B' m'. initFromDeckTensorgrid B' deck = Inr m' \<and>
      (\<forall>nx ny nz x y z t. create_grid_tensor3d B nx ny nz x y z t = None) \<longrightarrow>
      initFromDeckTensorgrid B deck = Inl (runtime_error ''Failed to construct grid.''))"
proof -
  have simple:
    "(u \<noteq> None \<longrightarrow> throw_if_null u msg = Inr \<lparr>ug = u\<rparr>) \<and>
     (u = None \<longrightarrow> throw_if_null u msg = Inl (runtime_error msg))" for u :: "'a option" and msg
    by (rule throw_if_null_cases)
  have eg_ok: "ug m \<noteq> None \<and>
      ug m = fst (create_grid_cornerpoint B
                    \<lparr>dims = (getNX eclipseGrid, getNY eclipseGrid, getNZ eclipseGrid),
                     coord = vector_data (exportCOORD eclipseGrid),
                     zcorn = vector_data (exportZCORN eclipseGrid),
                     actnum = vector_data (exportACTNUM eclipseGrid),
                     mapaxes = vector_data (exportMAPAXES eclipseGrid)\<rparr> 0 h)"
    if "fst (GridManager_eclipseGrid B eclipseGrid h) = Inr m" for m
    using that unfolding GridManager_eclipseGrid_def Let_def
    by (auto split: prod.splits simp: throw_if_null_Inr)
  have eg_err: "e = runtime_error ''Failed to construct grid.''"
    if "fst (GridManager_eclipseGrid B eclipseGrid h) = Inl e" for e
    using that unfolding GridManager_eclipseGrid_def Let_def
    by (auto split: prod.splits simp: throw_if_null_Inl)
  have deck_ok: "ug m \<noteq> None \<and>
      ((\<exists>g h1. ug m = fst (create_grid_cornerpoint B g 0 h1)) \<or>
       (\<exists>nx ny nz x y z t. ug m = create_grid_tensor3d B nx ny nz x y z t))"
    if r: "fst (GridManager_deck B deck h) = Inr m" for m
  proof (cases "hasKeyword deck ''ZCORN'' \<and> hasKeyword deck ''COORD''")
    case True
    with r have "fst (initFromDeckCornerpoint B deck h) = Inr m"
      by (simp add: GridManager_deck_def)
    from cornerpoint_Inr [OF this] show ?thesis by blast
  next
    case False
    with r have "initFromDeckTensorgrid B deck = Inr m"
      by (auto simp: GridManager_deck_def split: if_splits)
    from tensor_Inr [OF this] show ?thesis by blast
  qed
  have deck_err: "e = deck_exception \<or> e = out_of_bounds \<or> (\<exists>msg. e = runtime_error msg)"
    if r: "fst (GridManager_deck B deck h) = Inl e" for e
  proof (cases "hasKeyword deck ''ZCORN'' \<and> hasKeyword deck ''COORD''")
    case True
    with r have "fst (initFromDeckCornerpoint B deck h) = Inl e"
      by (simp add: GridManager_deck_def)
    from cornerpoint_Inl [OF this] show ?thesis by blast
  next
    case False
    show ?thesis
    proof (cases "hasKeyword deck ''DXV'' \<and> hasKeyword deck ''DYV'' \<and> hasKeyword deck ''DZV''")
      case True
      with False have "GridManager_deck B deck h = (initFromDeckTensorgrid B deck, h)"
        by (auto simp: GridManager_deck_def)
      with r have "initFromDeckTensorgrid B deck = Inl e" by simp
      from tensor_Inl [OF this] show ?thesis .
    next
      case no: False
      with False have "GridManager_deck B deck h =
          (Inl (runtime_error (''Could not initialize grid from deck. '' @
                  ''Need either ZCORN + COORD or DXV + DYV + DZV keywords.'')), h)"
        by (auto simp: GridManager_deck_def)
      with r show ?thesis by auto
    qed
  qed
  have cp_null: "fst (initFromDeckCornerpoint B deck h) =
      Inl (runtime_error ''Failed to construct grid.'')"
    if "createGrdecl deck h = (Inr g, h1) \<and> fst (create_grid_cornerpoint B g 0 h1) = None"
    for g h1
    using that by (auto simp: initFromDeckCornerpoint_def throw_if_null_def split: prod.splits)
  have tg_null: "initFromDeckTensorgrid B deck = Inl (runtime_error ''Failed to construct grid.'')"
    if "initFromDeckTensorgrid B' deck = Inr m' \<and>
      (\<forall>nx ny nz x y z t. create_grid_tensor3d B nx ny nz x y z t = None)"
    for B' m'
    using that tensor_null_builder [of B' deck m' B] by blast
  show ?thesis
    unfolding GridManager_2d_def GridManager_2d_sized_def GridManager_3d_def
      GridManager_3d_sized_def GridManager_file_def
    using eg_ok eg_err deck_ok deck_err cp_null tg_null
    by (intro conjI simple [THEN conjunct1] simple [THEN conjunct2]) blast+
qed


lemma both_deck_createGrdecl:
  "createGrdecl both_deck [] =
     (Inr \<lparr>dims = (1, 1, 1),
         coord = Data [0, 0, 0, 0, 0, 1, 1, 0, 0, 1, 0, 1, 0, 1, 0, 0, 1, 1, 1, 1, 0, 1, 1, 1],
         zcorn = Data [0, 0, 0, 0, 1, 1, 1, 1], actnum = Null, mapaxes = Null\<rparr>, [])"
  by (simp add: createGrdecl_def both_deck_def deck_eval)

theorem constructors_mesh_or_error_witness:
  "GridManager_2d echo_builders 2 3 = Inr \<lparr>ug = Some (Built_cart2d 2 3 1 1)\<rparr> \<and>
   GridManager_2d_sized null_builders 2 3 10 20 = Inl (runtime_error ''Failed to construct grid.'') \<and>
   GridManager_3d null_builders 2 3 4 = Inl (runtime_error ''Failed to construct grid.'') \<and>
   GridManager_3d_sized echo_builders 2 3 4 10 20 30 =
     Inr \<lparr>ug = Some (Built_hexa3d 2 3 4 10 20 30)\<rparr> \<and>
   GridManager_file echo_builders ''grid.txt'' = Inr \<lparr>ug = Some (Built_file ''grid.txt'')\<rparr> \<and>
   GridManager_file null_builders ''grid.txt'' =
     Inl (runtime_error ''Failed to read grid from file grid.txt'') \<and>
   fst (GridManager_eclipseGrid null_builders unit_eclipse_grid []) =
     Inl (runtime_error ''Failed to construct grid.'') \<and>
   (\<exists>m. fst (GridManager_eclipseGrid echo_builders unit_eclipse_grid []) = Inr m \<and>
      ug m = Some (Built_cornerpoint
                     \<lparr>dims = (1, 1, 1), coord = Data unit_coord,
                      zcorn = Data [0, 0, 0, 0, 1, 1, 1, 1], actnum = Data [1],
                      mapaxes = Null\<rparr> 0)) \<and>
   (\<exists>m. fst (GridManager_deck echo_builders both_deck []) = Inr m \<and> ug m \<noteq> None) \<and>
   fst (GridManager_deck null_builders both_deck []) =
     Inl (runtime_error ''Failed to construct grid.'') \<and>
   initFromDeckTensorgrid null_builders tensor_deck =
     Inl (runtime_error ''Failed to construct grid.'') \<and>
   (\<exists>msg. fst (GridManager_deck echo_builders no_grid_deck []) = Inl (runtime_error msg))"
proof -
  note echo = constructors_mesh_or_error [of echo_builders 2 3 10 20 4 30 "''grid.txt''"
      unit_eclipse_grid "[]" both_deck]
  note e1 = echo [THEN conjunct1]
  note e7 = echo [THEN conjunct2, THEN conjunct2, THEN conjunct2, THEN conjunct2,
      THEN conjunct2, THEN conjunct2, THEN conjunct1]
  note e9 = echo [THEN conjunct2, THEN conjunct2, THEN conjunct2, THEN conjunct2,
      THEN conjunct2, THEN conjunct2, THEN conjunct2, THEN conjunct2, THEN conjunct1]
  note e11 = echo [THEN conjunct2, THEN conjunct2, THEN conjunct2, THEN conjunct2,
      THEN conjunct2, THEN conjunct2, THEN conjunct2, THEN conjunct2, THEN conjunct2,
      THEN conjunct2, THEN conjunct1]
  note e13 = echo [THEN conjunct2, THEN conjunct2, THEN conjunct2, THEN conjunct2,
      THEN conjunct2, THEN conjunct2, THEN conjunct2, THEN conjunct2, THEN conjunct2,
      THEN conjunct2, THEN conjunct2, THEN conjunct2, THEN conjunct1]
  note null = constructors_mesh_or_error [of null_builders 2 3 10 20 4 30 "''grid.txt''"
      unit_eclipse_grid "[]" both_deck]
  note n4 = null [THEN conjunct2, THEN conjunct2, THEN conjunct2, THEN conjunct1]
  note n6 = null [THEN conjunct2, THEN conjunct2, THEN conjunct2, THEN conjunct2,
      THEN conjunct2, THEN conjunct1]
  note n10 = null [THEN conjunct2, THEN conjunct2, THEN conjunct2, THEN conjunct2,
      THEN conjunct2, THEN conjunct2, THEN conjunct2, THEN conjunct2, THEN conjunct2,
      THEN conjunct1]
  note n11 = null [THEN conjunct2, THEN conjunct2, THEN conjunct2, THEN conjunct2,
      THEN conjunct2, THEN conjunct2, THEN conjunct2, THEN conjunct2, THEN conjunct2,
      THEN conjunct2, THEN conjunct1]
  note n12 = null [THEN conjunct2, THEN conjunct2, THEN conjunct2, THEN conjunct2,
      THEN conjunct2, THEN conjunct2, THEN conjunct2, THEN conjunct2, THEN conjunct2,
      THEN conjunct2, THEN conjunct2, THEN conjunct1]
  note n15 = null [THEN conjunct2, THEN conjunct2, THEN conjunct2, THEN conjunct2,
      THEN conjunct2, THEN conjunct2, THEN conjunct2, THEN conjunct2, THEN conjunct2,
      THEN conjunct2, THEN conjunct2, THEN conjunct2, THEN conjunct2, THEN conjunct2,
      THEN conjunct1]
  note t16 = constructors_mesh_or_error [of null_builders 2 3 10 20 4 30 "''grid.txt''"
      unit_eclipse_grid "[]" tensor_deck, THEN conjunct2, THEN conjunct2, THEN conjunct2,
      THEN conjunct2, THEN conjunct2, THEN conjunct2, THEN conjunct2, THEN conjunct2,
      THEN conjunct2, THEN conjunct2, THEN conjunct2, THEN conjunct2, THEN conjunct2,
      THEN conjunct2, THEN conjunct2]
  note g14 = constructors_mesh_or_error [of echo_builders 2 3 10 20 4 30 "''grid.txt''"
      unit_eclipse_grid "[]" no_grid_deck, THEN conjunct2, THEN conjunct2, THEN conjunct2,
      THEN conjunct2, THEN conjunct2, THEN conjunct2, THEN conjunct2, THEN conjunct2,
      THEN conjunct2, THEN conjunct2, THEN conjunct2, THEN conjunct2, THEN conjunct2,
      THEN conjunct1]
  have builders:
    "create_grid_cart2d echo_builders 2 3 1 1 = Some (Built_cart2d 2 3 1 1)"
    "create_grid_hexa3d echo_builders 2 3 4 10 20 30 = Some (Built_hexa3d 2 3 4 10 20 30)"
    "read_grid echo_builders ''grid.txt'' = Some (Built_file ''grid.txt'')"
    "create_grid_cart2d null_builders 2 3 10 20 = None"
    "create_grid_cart3d null_builders 2 3 4 = None"
    "read_grid null_builders ''grid.txt'' = None"
    "\<And>g tol h. create_grid_cornerpoint null_builders g tol h = (None, h)"
    "\<And>nx ny nz x y z t. create_grid_tensor3d null_builders nx ny nz x y z t = None"
    by (simp_all add: echo_builders_def null_builders_def)
  have a: "GridManager_2d echo_builders 2 3 = Inr \<lparr>ug = Some (Built_cart2d 2 3 1 1)\<rparr>"
    using e1 by (simp add: builders)
  have b: "GridManager_2d_sized null_builders 2 3 10 20 =
      Inl (runtime_error ''Failed to construct grid.'')"
    using n4 by (simp add: builders)
  have c: "GridManager_3d null_builders 2 3 4 = Inl (runtime_error ''Failed to construct grid.'')"
    using n6 by (simp add: builders)
  have d: "GridManager_3d_sized echo_builders 2 3 4 10 20 30 =
     Inr \<lparr>ug = Some (Built_hexa3d 2 3 4 10 20 30)\<rparr>"
    using e7 by (simp add: builders)
  have e: "GridManager_file echo_builders ''grid.txt'' =
      Inr \<lparr>ug = Some (Built_file ''grid.txt'')\<rparr>"
    using e9 by (simp add: builders)
  have f: "GridManager_file null_builders ''grid.txt'' =
     Inl (runtime_error ''Failed to read grid from file grid.txt'')"
    using n10 by (simp add: builders)
  have g: "fst (GridManager_eclipseGrid null_builders unit_eclipse_grid []) =
     Inl (runtime_error ''Failed to construct grid.'')"
  proof (cases "fst (GridManager_eclipseGrid null_builders unit_eclipse_grid [])")
    case (Inl err)
    with n12 [rule_format, of err] show ?thesis by simp
  next
    case (Inr m)
    with n11 [rule_format, of m] show ?thesis by (auto simp: builders)
  qed
  have h: "\<exists>m. fst (GridManager_eclipseGrid echo_builders unit_eclipse_grid []) = Inr m \<and>
      ug m = Some (Built_cornerpoint
                     \<lparr>dims = (1, 1, 1), coord = Data unit_coord,
                      zcorn = Data [0, 0, 0, 0, 1, 1, 1, 1], actnum = Data [1],
                      mapaxes = Null\<rparr> 0)"
  proof (cases "fst (GridManager_eclipseGrid echo_builders unit_eclipse_grid [])")
    case (Inl err)
    then show ?thesis
      by (simp add: GridManager_eclipseGrid_def echo_builders_def throw_if_null_def)
  next
    case (Inr m)
    with e11 [rule_format, of m] show ?thesis
      by (simp add: unit_eclipse_grid_def vector_data_def echo_builders_def unit_coord_def)
  qed
  have cp: "GridManager_deck B both_deck [] = initFromDeckCornerpoint B both_deck []" for B :: "built Builders"
    by (simp add: GridManager_deck_def hasKeyword_def both_deck_def)
  have i: "\<exists>m. fst (GridManager_deck echo_builders both_deck []) = Inr m \<and> ug m \<noteq> None"
  proof (cases "fst (GridManager_deck echo_builders both_deck [])")
    case (Inl err)
    then show ?thesis
      by (simp add: cp both_deck_cornerpoint)
  next
    case (Inr m)
    with e13 [rule_format, of m] show ?thesis by blast
  qed
  have j: "fst (GridManager_deck null_builders both_deck []) =
     Inl (runtime_error ''Failed to construct grid.'')"
    using n15 [rule_format, OF conjI, OF both_deck_createGrdecl] by (simp add: cp builders)
  have k: "initFromDeckTensorgrid null_builders tensor_deck =
     Inl (runtime_error ''Failed to construct grid.'')"
    using t16 [rule_format, OF conjI, OF tensor_deck_result] by (simp add: builders)
  have l: "\<exists>msg. fst (GridManager_deck echo_builders no_grid_deck []) = Inl (runtime_error msg)"
  proof (cases "fst (GridManager_deck echo_builders no_grid_deck [])")
    case (Inl err)
    with g14 [rule_format, of err]
    have "err = deck_exception \<or> err = out_of_bounds \<or> (\<exists>msg. err = runtime_error msg)"
      by simp
    moreover from Inl have "err \<noteq> deck_exception" "err \<noteq> out_of_bounds"
      by (auto simp: GridManager_deck_def hasKeyword_def no_grid_deck_def)
    ultimately show ?thesis using Inl by auto
  next
    case (Inr m)
    then show ?thesis
      by (simp add: GridManager_deck_def hasKeyword_def no_grid_deck_def)
  qed
  from a b c d e f g h i j k l show ?thesis by (intro conjI)
qed

section \<open>The deck constructor on a TOPS keyword without values (C2)\<close>

text \<open>
  Claim C2 says that every constructor either completes holding a valid mesh or fails by
  signalling a construction error with a human-readable cause. The constructor from a
  deck does neither on \<open>empty_tops_deck\<close>, a tensor-grid deck whose TOPS keyword has no
  value: the tensor-grid path reads \<^verbatim>\<open>tops[0]\<close> past the end of the empty vector before any
  builder is called, whatever the builders are. No manager is returned and no error is
  thrown by the manager. With four equal TOPS values the same deck gives a manager, and
  with unequal ones the nonuniform-TOPS error.
\<close>

theorem deck_constructor_empty_tops:
  "GridManager_deck echo_builders empty_tops_deck [] = (Inl out_of_bounds, []) \<and>
   GridManager_deck null_builders empty_tops_deck [] = (Inl out_of_bounds, []) \<and>
   \<not> mesh_or_construction_error (fst (GridManager_deck echo_builders empty_tops_deck [])) \<and>
   mesh_or_construction_error (fst (GridManager_deck echo_builders uniform_tops_deck [])) \<and>
   mesh_or_construction_error (fst (GridManager_deck echo_builders nonuniform_tops_deck []))"
  by (simp add: GridManager_deck_def initFromDeckTensorgrid_def empty_tops_deck_def
      uniform_tops_deck_def nonuniform_tops_deck_def mesh_or_construction_error_def
      tensor_deck_def deck_eval coordsFromDeltas_Cons echo_builders_def null_builders_def)

section \<open>Array sizes against the dimensions (C4)\<close>

lemma short_zcorn_createGrdecl:
  "createGrdecl short_zcorn_deck h =
     (Inr \<lparr>dims = (1, 1, 1), coord = Data unit_coord, zcorn = Data [0], actnum = Null,
            mapaxes = Null\<rparr>, h)"
  by (simp add: createGrdecl_def short_zcorn_deck_def deck_eval)

text \<open>
  Claim C4 says that every corner-point input whose ZCORN or COORD size does not match
  the declared dimensions fails with a descriptive error. The deck \<open>short_zcorn_deck\<close>
  declares one cell and gives ZCORN one value instead of eight. \<^verbatim>\<open>createGrdecl\<close> never looks at the size of
  either vector: it fills the record with the pointers \<^verbatim>\<open>&zcorn[0]\<close> and \<^verbatim>\<open>&coord[0]\<close>, and the
  constructor hands that record to the builder; whether construction fails is only
  whether the builder returns null, and with a builder that returns a grid the
  constructor returns a manager. \<^verbatim>\<open>mx_init_grdecl\<close>, which fills the same record from a
  MATLAB struct, rejects the same arrays (next section).
\<close>

theorem sizes_unchecked_in_deck_path:
  "createGrdecl short_zcorn_deck h =
     (Inr \<lparr>dims = (1, 1, 1), coord = Data unit_coord, zcorn = Data [0], actnum = Null,
            mapaxes = Null\<rparr>, h) \<and>
   fst (GridManager_deck B short_zcorn_deck h) =
     throw_if_null
       (fst (create_grid_cornerpoint B
               \<lparr>dims = (1, 1, 1), coord = Data unit_coord, zcorn = Data [0], actnum = Null,
                mapaxes = Null\<rparr> 0 h))
       ''Failed to construct grid.'' \<and>
   GridManager_deck echo_builders short_zcorn_deck [] =
     (Inr \<lparr>ug = Some (Built_cornerpoint
                \<lparr>dims = (1, 1, 1), coord = Data unit_coord, zcorn = Data [0], actnum = Null,
                 mapaxes = Null\<rparr> 0)\<rparr>, [])"
proof (intro conjI)
  show "createGrdecl short_zcorn_deck h =
     (Inr \<lparr>dims = (1, 1, 1), coord = Data unit_coord, zcorn = Data [0], actnum = Null,
            mapaxes = Null\<rparr>, h)"
    by (rule short_zcorn_createGrdecl)
  have cp: "GridManager_deck B' short_zcorn_deck h' = initFromDeckCornerpoint B' short_zcorn_deck h'"
    for B' :: "'b Builders" and h'
    by (simp add: GridManager_deck_def hasKeyword_def short_zcorn_deck_def)
  show "fst (GridManager_deck B short_zcorn_deck h) =
     throw_if_null
       (fst (create_grid_cornerpoint B
               \<lparr>dims = (1, 1, 1), coord = Data unit_coord, zcorn = Data [0], actnum = Null,
                mapaxes = Null\<rparr> 0 h))
       ''Failed to construct grid.''"
    by (simp add: cp initFromDeckCornerpoint_def short_zcorn_createGrdecl split: prod.splits)
  show "GridManager_deck echo_builders short_zcorn_deck [] =
     (Inr \<lparr>ug = Some (Built_cornerpoint
                \<lparr>dims = (1, 1, 1), coord = Data unit_coord, zcorn = Data [0], actnum = Null,
                 mapaxes = Null\<rparr> 0)\<rparr>, [])"
    by (simp add: cp initFromDeckCornerpoint_def short_zcorn_createGrdecl echo_builders_def
        throw_if_null_def)
qed

section \<open>The size checks of the MATLAB path\<close>

text \<open>The 32-bit products of \<^verbatim>\<open>mx_init_grdecl\<close> are the products of the integers, wrapped once.\<close>

lemma wrap_int_mod: "wrap_int a mod 2 ^ 32 = a mod 2 ^ 32"
  by (simp add: wrap_int_def mod_simps)

lemma wrap_int_cong: "a mod 2 ^ 32 = b mod 2 ^ 32 \<Longrightarrow> wrap_int a = wrap_int b"
  unfolding wrap_int_def by (metis mod_add_left_eq)

lemma wrap_int_id: "- (2 ^ 31) \<le> x \<Longrightarrow> x < 2 ^ 31 \<Longrightarrow> wrap_int x = x"
  by (simp add: wrap_int_def)

lemma wrap_int_nonneg: "0 \<le> x \<Longrightarrow> x < 2 ^ 31 \<Longrightarrow> wrap_int x = x"
  by (rule wrap_int_id) simp_all

lemma wrap_int_times_left: "wrap_int (wrap_int a * b) = wrap_int (a * b)"
  by (rule wrap_int_cong) (intro mod_mult_cong wrap_int_mod refl)

lemma wrap_int_times_right: "wrap_int (a * wrap_int b) = wrap_int (a * b)"
  by (rule wrap_int_cong) (intro mod_mult_cong wrap_int_mod refl)

lemma actnum_product: "int_times (int_times d0 d1) d2 = wrap_int (d0 * d1 * d2)"
  unfolding int_times_def wrap_int_times_left by (rule refl)

lemma coord_product:
  "int_times (int_times 6 (int_plus d0 1)) (int_plus d1 1) = wrap_int (6 * (d0 + 1) * (d1 + 1))"
  unfolding int_times_def int_plus_def wrap_int_times_left wrap_int_times_right by (rule refl)

lemma zcorn_product:
  "int_times (int_times (int_times 8 d0) d1) d2 = wrap_int (8 * d0 * d1 * d2)"
  unfolding int_times_def wrap_int_times_left by (rule refl)

lemma int_of_size_id: "n < 2 ^ 31 \<Longrightarrow> int_of_size n = int n"
  unfolding int_of_size_def by (rule wrap_int_nonneg) simp_all

lemma mx_init_grdecl_dims:
  assumes "s ''cartDims'' = Some (mxDoubles [a, b, c])"
    and "int_of_double a = Inr d0" and "int_of_double b = Inr d1" and "int_of_double c = Inr d2"
  shows "mx_init_grdecl g s =
     (let g = g\<lparr>dims := (d0, d1, d2)\<rparr>;
          field = mxGetField s ''ACTNUM'' in
      and_then (mxGetNumberOfElements field) (\<lambda>n_elements.
      and_then (mxGetClassID field) (\<lambda>cls.
        if cls \<noteq> mxINT32_CLASS \<or> int_of_size n_elements \<noteq> wrap_int (d0 * d1 * d2) then
          Inl (mex_error ''ACTNUM field must be nx*ny*nz numbers int32'')
        else
          let g = g\<lparr>actnum := mxGetData field\<rparr>;
              field = mxGetField s ''COORD'' in
          and_then (mxGetNumberOfElements field) (\<lambda>n_elements.
          and_then (mxGetClassID field) (\<lambda>cls.
            if cls \<noteq> mxDOUBLE_CLASS \<or>
               int_of_size n_elements \<noteq> wrap_int (6 * (d0 + 1) * (d1 + 1)) then
              Inl (mex_error ''COORD field must have 6*(nx+1)*(ny+1) doubles.'')
            else
              let g = g\<lparr>coord := mxGetPr field\<rparr>;
                  field = mxGetField s ''ZCORN'' in
              and_then (mxGetNumberOfElements field) (\<lambda>n_elements.
              and_then (mxGetClassID field) (\<lambda>cls.
                if cls \<noteq> mxDOUBLE_CLASS \<or>
                   int_of_size n_elements \<noteq> wrap_int (8 * d0 * d1 * d2) then
                  Inl (mex_error ''ZCORN field must have 8*nx*ny*nz doubles.'')
                else Inr (g\<lparr>zcorn := mxGetPr field\<rparr>))))))))"
  using assms
  unfolding mx_init_grdecl_def int_times_def int_plus_def wrap_int_times_left
    wrap_int_times_right
  by (simp add: mxGetField_def vector_at_def Let_def int_of_size_id)

text \<open>
  \<^verbatim>\<open>mx_init_grdecl\<close> on a struct with three numbers in \<^verbatim>\<open>cartDims\<close> that convert to the
  \<^verbatim>\<open>int\<close>s \<open>nx\<close>, \<open>ny\<close>, \<open>nz\<close>, and with COORD and ZCORN of class double. When the number of COORD
  elements is not \<open>6 * (nx + 1) * (ny + 1)\<close> or the number of ZCORN elements is not
  \<open>8 * nx * ny * nz\<close>, both sides taken as 32-bit \<^verbatim>\<open>int\<close>s, the function leaves with one of its
  three error messages (the ACTNUM check comes first) and returns no record. For
  dimensions that are not negative and products and sizes below \<open>2 ^ 31\<close> these are the
  products and sizes themselves. When ACTNUM is of class int32 and the three sizes are the
  three wrapped products, the record is filled with the dimensions and the three arrays.
\<close>

theorem mx_init_grdecl_checks_sizes:
  "(s ''cartDims'' = Some (mxDoubles [a, b, c]) \<and> int_of_double a = Inr d0 \<and>
    int_of_double b = Inr d1 \<and> int_of_double c = Inr d2 \<and> s ''ACTNUM'' = Some actnum_field \<and>
    s ''COORD'' = Some (mxDoubles coord_data) \<and> s ''ZCORN'' = Some (mxDoubles zcorn_data) \<and>
    (int_of_size (length coord_data) \<noteq> wrap_int (6 * (d0 + 1) * (d1 + 1)) \<or>
     int_of_size (length zcorn_data) \<noteq> wrap_int (8 * d0 * d1 * d2)) \<longrightarrow>
      mx_init_grdecl g s \<in>
        {Inl (mex_error ''ACTNUM field must be nx*ny*nz numbers int32''),
         Inl (mex_error ''COORD field must have 6*(nx+1)*(ny+1) doubles.''),
         Inl (mex_error ''ZCORN field must have 8*nx*ny*nz doubles.'')}) \<and>
   (s ''cartDims'' = Some (mxDoubles [a, b, c]) \<and> int_of_double a = Inr d0 \<and>
    int_of_double b = Inr d1 \<and> int_of_double c = Inr d2 \<and> s ''ACTNUM'' = Some actnum_field \<and>
    s ''COORD'' = Some (mxDoubles coord_data) \<and> s ''ZCORN'' = Some (mxDoubles zcorn_data) \<and>
    0 \<le> d0 \<and> 0 \<le> d1 \<and> 0 \<le> d2 \<and> 6 * (d0 + 1) * (d1 + 1) < 2 ^ 31 \<and> 8 * d0 * d1 * d2 < 2 ^ 31 \<and>
    length coord_data < 2 ^ 31 \<and> length zcorn_data < 2 ^ 31 \<and>
    (int (length coord_data) \<noteq> 6 * (d0 + 1) * (d1 + 1) \<or>
     int (length zcorn_data) \<noteq> 8 * d0 * d1 * d2) \<longrightarrow>
      mx_init_grdecl g s \<in>
        {Inl (mex_error ''ACTNUM field must be nx*ny*nz numbers int32''),
         Inl (mex_error ''COORD field must have 6*(nx+1)*(ny+1) doubles.''),
         Inl (mex_error ''ZCORN field must have 8*nx*ny*nz doubles.'')}) \<and>
   (s ''cartDims'' = Some (mxDoubles [a, b, c]) \<and> int_of_double a = Inr d0 \<and>
    int_of_double b = Inr d1 \<and> int_of_double c = Inr d2 \<and> s ''ACTNUM'' = Some actnum_field \<and>
    s ''COORD'' = Some (mxDoubles coord_data) \<and> s ''ZCORN'' = Some (mxDoubles zcorn_data) \<and>
    actnum_field = mxInt32s actnum_data \<and>
    int_of_size (length actnum_data) = wrap_int (d0 * d1 * d2) \<and>
    int_of_size (length coord_data) = wrap_int (6 * (d0 + 1) * (d1 + 1)) \<and>
    int_of_size (length zcorn_data) = wrap_int (8 * d0 * d1 * d2) \<longrightarrow>
      mx_init_grdecl g s =
        Inr (g\<lparr>dims := (d0, d1, d2), actnum := Data actnum_data, coord := Data coord_data,
               zcorn := Data zcorn_data\<rparr>))"
proof (intro conjI impI)
  assume a: "s ''cartDims'' = Some (mxDoubles [a, b, c]) \<and> int_of_double a = Inr d0 \<and>
    int_of_double b = Inr d1 \<and> int_of_double c = Inr d2 \<and> s ''ACTNUM'' = Some actnum_field \<and>
    s ''COORD'' = Some (mxDoubles coord_data) \<and> s ''ZCORN'' = Some (mxDoubles zcorn_data) \<and>
    (int_of_size (length coord_data) \<noteq> wrap_int (6 * (d0 + 1) * (d1 + 1)) \<or>
     int_of_size (length zcorn_data) \<noteq> wrap_int (8 * d0 * d1 * d2))"
  then have d: "s ''cartDims'' = Some (mxDoubles [a, b, c])" "int_of_double a = Inr d0"
    "int_of_double b = Inr d1" "int_of_double c = Inr d2" by simp_all
  from a show "mx_init_grdecl g s \<in>
        {Inl (mex_error ''ACTNUM field must be nx*ny*nz numbers int32''),
         Inl (mex_error ''COORD field must have 6*(nx+1)*(ny+1) doubles.''),
         Inl (mex_error ''ZCORN field must have 8*nx*ny*nz doubles.'')}"
    unfolding mx_init_grdecl_dims [of s a b c d0 d1 d2 g, OF d]
    by (cases actnum_field) (auto simp: mxGetField_def Let_def)
next
  assume a: "s ''cartDims'' = Some (mxDoubles [a, b, c]) \<and> int_of_double a = Inr d0 \<and>
    int_of_double b = Inr d1 \<and> int_of_double c = Inr d2 \<and> s ''ACTNUM'' = Some actnum_field \<and>
    s ''COORD'' = Some (mxDoubles coord_data) \<and> s ''ZCORN'' = Some (mxDoubles zcorn_data) \<and>
    0 \<le> d0 \<and> 0 \<le> d1 \<and> 0 \<le> d2 \<and> 6 * (d0 + 1) * (d1 + 1) < 2 ^ 31 \<and> 8 * d0 * d1 * d2 < 2 ^ 31 \<and>
    length coord_data < 2 ^ 31 \<and> length zcorn_data < 2 ^ 31 \<and>
    (int (length coord_data) \<noteq> 6 * (d0 + 1) * (d1 + 1) \<or>
     int (length zcorn_data) \<noteq> 8 * d0 * d1 * d2)"
  then have d: "s ''cartDims'' = Some (mxDoubles [a, b, c])" "int_of_double a = Inr d0"
    "int_of_double b = Inr d1" "int_of_double c = Inr d2" by simp_all
  from a have r: "0 \<le> d0" "0 \<le> d1" "0 \<le> d2" by simp_all
  from a have u: "6 * (d0 + 1) * (d1 + 1) < 2 ^ 31" "8 * d0 * d1 * d2 < 2 ^ 31" by simp_all
  from r have l: "0 \<le> 6 * (d0 + 1) * (d1 + 1)" "0 \<le> 8 * d0 * d1 * d2"
    by (intro mult_nonneg_nonneg; simp)+
  have w: "wrap_int (6 * (d0 + 1) * (d1 + 1)) = 6 * (d0 + 1) * (d1 + 1)"
    "wrap_int (8 * d0 * d1 * d2) = 8 * d0 * d1 * d2"
    using l u by (simp_all only: wrap_int_nonneg)
  from a have n: "int_of_size (length coord_data) = int (length coord_data)"
    "int_of_size (length zcorn_data) = int (length zcorn_data)"
    by (simp_all add: int_of_size_id)
  from a show "mx_init_grdecl g s \<in>
        {Inl (mex_error ''ACTNUM field must be nx*ny*nz numbers int32''),
         Inl (mex_error ''COORD field must have 6*(nx+1)*(ny+1) doubles.''),
         Inl (mex_error ''ZCORN field must have 8*nx*ny*nz doubles.'')}"
    unfolding mx_init_grdecl_dims [of s a b c d0 d1 d2 g, OF d] w
    by (cases actnum_field) (auto simp: mxGetField_def Let_def n)
next
  assume a: "s ''cartDims'' = Some (mxDoubles [a, b, c]) \<and> int_of_double a = Inr d0 \<and>
    int_of_double b = Inr d1 \<and> int_of_double c = Inr d2 \<and> s ''ACTNUM'' = Some actnum_field \<and>
    s ''COORD'' = Some (mxDoubles coord_data) \<and> s ''ZCORN'' = Some (mxDoubles zcorn_data) \<and>
    actnum_field = mxInt32s actnum_data \<and>
    int_of_size (length actnum_data) = wrap_int (d0 * d1 * d2) \<and>
    int_of_size (length coord_data) = wrap_int (6 * (d0 + 1) * (d1 + 1)) \<and>
    int_of_size (length zcorn_data) = wrap_int (8 * d0 * d1 * d2)"
  then have d: "s ''cartDims'' = Some (mxDoubles [a, b, c])" "int_of_double a = Inr d0"
    "int_of_double b = Inr d1" "int_of_double c = Inr d2" by simp_all
  from a show "mx_init_grdecl g s =
        Inr (g\<lparr>dims := (d0, d1, d2), actnum := Data actnum_data, coord := Data coord_data,
               zcorn := Data zcorn_data\<rparr>)"
    unfolding mx_init_grdecl_dims [of s a b c d0 d1 d2 g, OF d]
    by (simp add: mxGetField_def Let_def)
qed

theorem mx_init_grdecl_checks_sizes_witness:
  "mx_init_grdecl blank_grdecl short_zcorn_struct =
     Inl (mex_error ''ZCORN field must have 8*nx*ny*nz doubles.'') \<and>
   mx_init_grdecl blank_grdecl unit_struct =
     Inr \<lparr>dims = (1, 1, 1), coord = Data unit_coord, zcorn = Data [0, 0, 0, 0, 1, 1, 1, 1],
          actnum = Data [1], mapaxes = Null\<rparr> \<and>
   mx_init_grdecl blank_grdecl wrapped_dims_struct =
     Inr \<lparr>dims = (11, 178956970, 1098145047), coord = Data unit_coord,
          zcorn = Data [0, 0, 0, 0, 0, 0, 0, 0, 1, 1, 1, 1, 1, 1, 1, 1],
          actnum = Data [1, 1], mapaxes = Null\<rparr>"
proof -
  have "mx_init_grdecl blank_grdecl short_zcorn_struct \<in>
       {Inl (mex_error ''ACTNUM field must be nx*ny*nz numbers int32''),
         Inl (mex_error ''COORD field must have 6*(nx+1)*(ny+1) doubles.''),
         Inl (mex_error ''ZCORN field must have 8*nx*ny*nz doubles.'')}"
    using mx_init_grdecl_checks_sizes [of short_zcorn_struct 1 1 1 1 1 1 "mxInt32s [1]"
        unit_coord "[0]" blank_grdecl "[1]", THEN conjunct2, THEN conjunct1]
    by (simp add: short_zcorn_struct_def int_of_double_def unit_coord_def)
  moreover have "mx_init_grdecl blank_grdecl short_zcorn_struct \<noteq>
      Inl (mex_error ''ACTNUM field must be nx*ny*nz numbers int32'')"
    "mx_init_grdecl blank_grdecl short_zcorn_struct \<noteq>
      Inl (mex_error ''COORD field must have 6*(nx+1)*(ny+1) doubles.'')"
    by (simp_all add: mx_init_grdecl_def short_zcorn_struct_def mxGetField_def vector_at_def
        int_of_double_def unit_coord_def Let_def int_of_size_def int_times_def int_plus_def
        wrap_int_def)
  ultimately have 1: "mx_init_grdecl blank_grdecl short_zcorn_struct =
     Inl (mex_error ''ZCORN field must have 8*nx*ny*nz doubles.'')"
    by blast
  have 2: "mx_init_grdecl blank_grdecl unit_struct =
     Inr \<lparr>dims = (1, 1, 1), coord = Data unit_coord, zcorn = Data [0, 0, 0, 0, 1, 1, 1, 1],
          actnum = Data [1], mapaxes = Null\<rparr>"
    using mx_init_grdecl_checks_sizes [of unit_struct 1 1 1 1 1 1 "mxInt32s [1]"
        unit_coord "[0, 0, 0, 0, 1, 1, 1, 1]" blank_grdecl "[1]", THEN conjunct2, THEN conjunct2]
    by (simp add: unit_struct_def int_of_double_def unit_coord_def blank_grdecl_def
        int_of_size_def wrap_int_def)
  have 3: "mx_init_grdecl blank_grdecl wrapped_dims_struct =
     Inr \<lparr>dims = (11, 178956970, 1098145047), coord = Data unit_coord,
          zcorn = Data [0, 0, 0, 0, 0, 0, 0, 0, 1, 1, 1, 1, 1, 1, 1, 1],
          actnum = Data [1, 1], mapaxes = Null\<rparr>"
    using mx_init_grdecl_checks_sizes [of wrapped_dims_struct 11 178956970 1098145047
        11 178956970 1098145047 "mxInt32s [1, 1]"
        unit_coord "[0, 0, 0, 0, 0, 0, 0, 0, 1, 1, 1, 1, 1, 1, 1, 1]" blank_grdecl "[1, 1]",
        THEN conjunct2, THEN conjunct2]
    by (simp add: wrapped_dims_struct_def int_of_double_def unit_coord_def blank_grdecl_def
        int_of_size_def wrap_int_def)
  from 1 2 3 show ?thesis by simp
qed

section \<open>Logical dimensions in the two deck paths (C3)\<close>

text \<open>With the dimensions resolved, the tensor-grid path is the three comparisons of lines
  265-273 followed by the top depths and the builder, and the corner-point path is the call of
  the builder on the record of \<^verbatim>\<open>createGrdecl\<close>.\<close>

lemma tensor_dims_resolved:
  assumes "logical_dims deck = Inr (nx, ny, nz)"
    and "deck ''DXV'' = Some kx" and "deck ''DYV'' = Some ky" and "deck ''DZV'' = Some kz"
  shows "initFromDeckTensorgrid B deck =
     (if nx \<noteq> int (length (SIDoubleData kx)) then
        Inl (runtime_error ''Number of DXV data points do not match DIMENS or SPECGRID.'')
      else if ny \<noteq> int (length (SIDoubleData ky)) then
        Inl (runtime_error ''Number of DYV data points do not match DIMENS or SPECGRID.'')
      else if nz \<noteq> int (length (SIDoubleData kz)) then
        Inl (runtime_error ''Number of DZV data points do not match DIMENS or SPECGRID.'')
      else
        (case top_depths_of deck (coordsFromDeltas (SIDoubleData kx))
                (coordsFromDeltas (SIDoubleData ky)) of
           Inl e \<Rightarrow> Inl e
         | Inr top_depths \<Rightarrow>
             throw_if_null
               (create_grid_tensor3d B nx ny nz (Data (coordsFromDeltas (SIDoubleData kx)))
                  (Data (coordsFromDeltas (SIDoubleData ky)))
                  (Data (coordsFromDeltas (SIDoubleData kz))) top_depths)
               ''Failed to construct grid.''))"
  using assms
  by (simp add: initFromDeckTensorgrid_def getKeyword_def Let_def split: sum.splits)


lemma cornerpoint_call:
  assumes "createGrdecl deck h = (Inr g, h1)"
  shows "initFromDeckCornerpoint B deck h =
     (case create_grid_cornerpoint B g 0 h1 of
        (u, h2) \<Rightarrow> (throw_if_null u ''Failed to construct grid.'', h2))"
  using assms by (simp add: initFromDeckCornerpoint_def)

text \<open>
  Claim C3. Both deck paths resolve the logical dimensions by the same rule. With DIMENS
  in the deck, \<open>(nx, ny, nz)\<close> are the first values of the first three items of its first
  record (SPECGRID is not looked at); without DIMENS and with SPECGRID, the same items of
  SPECGRID; with neither keyword the rule fails with "Deck must have either DIMENS or
  SPECGRID." Each path uses the outcome of the rule. A failure of the rule is the failure
  of the tensor-grid path, and of the corner-point path once ZCORN and COORD are there.
  With the rule giving \<open>(nx, ny, nz)\<close>, the tensor-grid path compares \<open>nx\<close>, \<open>ny\<close> and \<open>nz\<close> with
  the lengths of DXV, DYV and DZV, in this order, and then calls the tensor builder; the
  corner-point path calls the corner-point builder on a record whose dimensions are
  \<open>(nx, ny, nz)\<close>, without and with MAPAXES.
\<close>

theorem logical_dims_resolution:
  "(deck ''DIMENS'' = Some kw \<and> record_list kw = (i0 # i1 # i2 # items) # rs \<and>
    int_values i0 = nx # xs \<and> int_values i1 = ny # ys \<and> int_values i2 = nz # zs \<longrightarrow>
      logical_dims deck = Inr (nx, ny, nz)) \<and>
   (deck ''DIMENS'' = None \<and> deck ''SPECGRID'' = Some kw \<and>
    record_list kw = (i0 # i1 # i2 # items) # rs \<and>
    int_values i0 = nx # xs \<and> int_values i1 = ny # ys \<and> int_values i2 = nz # zs \<longrightarrow>
      logical_dims deck = Inr (nx, ny, nz)) \<and>
   (deck ''DIMENS'' = None \<and> deck ''SPECGRID'' = None \<longrightarrow>
      logical_dims deck = Inl (runtime_error ''Deck must have either DIMENS or SPECGRID.'')) \<and>
   (logical_dims deck = Inl e \<longrightarrow> initFromDeckTensorgrid B deck = Inl e) \<and>
   (logical_dims deck = Inr (nx, ny, nz) \<and> deck ''DXV'' = Some kx \<and> deck ''DYV'' = Some ky \<and>
    deck ''DZV'' = Some kz \<longrightarrow>
      initFromDeckTensorgrid B deck =
        (if nx \<noteq> int (length (SIDoubleData kx)) then
           Inl (runtime_error ''Number of DXV data points do not match DIMENS or SPECGRID.'')
         else if ny \<noteq> int (length (SIDoubleData ky)) then
           Inl (runtime_error ''Number of DYV data points do not match DIMENS or SPECGRID.'')
         else if nz \<noteq> int (length (SIDoubleData kz)) then
           Inl (runtime_error ''Number of DZV data points do not match DIMENS or SPECGRID.'')
         else
           (case top_depths_of deck (coordsFromDeltas (SIDoubleData kx))
                   (coordsFromDeltas (SIDoubleData ky)) of
              Inl e \<Rightarrow> Inl e
            | Inr top_depths \<Rightarrow>
                throw_if_null
                  (create_grid_tensor3d B nx ny nz (Data (coordsFromDeltas (SIDoubleData kx)))
                     (Data (coordsFromDeltas (SIDoubleData ky)))
                     (Data (coordsFromDeltas (SIDoubleData kz))) top_depths)
                  ''Failed to construct grid.''))) \<and>
   (logical_dims deck = Inl e \<and> deck ''ZCORN'' = Some zk \<and> deck ''COORD'' = Some ck \<longrightarrow>
      createGrdecl deck h = (Inl e, h) \<and> initFromDeckCornerpoint B deck h = (Inl e, h)) \<and>
   (logical_dims deck = Inr (nx, ny, nz) \<and> deck ''ZCORN'' = Some zk \<and> deck ''COORD'' = Some ck \<and>
    deck ''MAPAXES'' = None \<longrightarrow>
      createGrdecl deck h =
        (Inr \<lparr>dims = (nx, ny, nz), coord = Data (SIDoubleData ck),
               zcorn = Data (SIDoubleData zk),
               actnum = (case deck ''ACTNUM'' of None \<Rightarrow> Null | Some ak \<Rightarrow> Data (IntData ak)),
               mapaxes = Null\<rparr>, h) \<and>
      initFromDeckCornerpoint B deck h =
        (case create_grid_cornerpoint B
                \<lparr>dims = (nx, ny, nz), coord = Data (SIDoubleData ck),
                 zcorn = Data (SIDoubleData zk),
                 actnum = (case deck ''ACTNUM'' of None \<Rightarrow> Null | Some ak \<Rightarrow> Data (IntData ak)),
                 mapaxes = Null\<rparr> 0 h of
           (u, h2) \<Rightarrow> (throw_if_null u ''Failed to construct grid.'', h2))) \<and>
   (logical_dims deck = Inr (nx, ny, nz) \<and> deck ''ZCORN'' = Some zk \<and> deck ''COORD'' = Some ck \<and>
    deck ''MAPAXES'' = Some mk \<and> record_list mk = r # rs' \<and>
    (\<forall>it\<in>set r. SI_double_values it \<noteq> []) \<longrightarrow>
      createGrdecl deck h =
        (Inr \<lparr>dims = (nx, ny, nz), coord = Data (SIDoubleData ck),
               zcorn = Data (SIDoubleData zk),
               actnum = (case deck ''ACTNUM'' of None \<Rightarrow> Null | Some ak \<Rightarrow> Data (IntData ak)),
               mapaxes = Malloced (length h)\<rparr>, h @ [map Some (record_SI_values r)]) \<and>
      initFromDeckCornerpoint B deck h =
        (case create_grid_cornerpoint B
                \<lparr>dims = (nx, ny, nz), coord = Data (SIDoubleData ck),
                 zcorn = Data (SIDoubleData zk),
                 actnum = (case deck ''ACTNUM'' of None \<Rightarrow> Null | Some ak \<Rightarrow> Data (IntData ak)),
                 mapaxes = Malloced (length h)\<rparr> 0 (h @ [map Some (record_SI_values r)]) of
           (u, h2) \<Rightarrow> (throw_if_null u ''Failed to construct grid.'', h2)))"
proof (intro conjI impI)
  assume "deck ''DIMENS'' = Some kw \<and> record_list kw = (i0 # i1 # i2 # items) # rs \<and>
    int_values i0 = nx # xs \<and> int_values i1 = ny # ys \<and> int_values i2 = nz # zs"
  then show "logical_dims deck = Inr (nx, ny, nz)"
    by (simp add: logical_dims_def hasKeyword_def getKeyword_def dims_of_keyword_first_record)
next
  assume "deck ''DIMENS'' = None \<and> deck ''SPECGRID'' = Some kw \<and>
    record_list kw = (i0 # i1 # i2 # items) # rs \<and>
    int_values i0 = nx # xs \<and> int_values i1 = ny # ys \<and> int_values i2 = nz # zs"
  then show "logical_dims deck = Inr (nx, ny, nz)"
    by (simp add: logical_dims_def hasKeyword_def getKeyword_def dims_of_keyword_first_record)
next
  assume "deck ''DIMENS'' = None \<and> deck ''SPECGRID'' = None"
  then show "logical_dims deck = Inl (runtime_error ''Deck must have either DIMENS or SPECGRID.'')"
    by (simp add: logical_dims_neither)
next
  assume "logical_dims deck = Inl e"
  then show "initFromDeckTensorgrid B deck = Inl e"
    by (rule tensor_dims_error)
next
  assume "logical_dims deck = Inr (nx, ny, nz) \<and> deck ''DXV'' = Some kx \<and>
    deck ''DYV'' = Some ky \<and> deck ''DZV'' = Some kz"
  then show "initFromDeckTensorgrid B deck =
        (if nx \<noteq> int (length (SIDoubleData kx)) then
           Inl (runtime_error ''Number of DXV data points do not match DIMENS or SPECGRID.'')
         else if ny \<noteq> int (length (SIDoubleData ky)) then
           Inl (runtime_error ''Number of DYV data points do not match DIMENS or SPECGRID.'')
         else if nz \<noteq> int (length (SIDoubleData kz)) then
           Inl (runtime_error ''Number of DZV data points do not match DIMENS or SPECGRID.'')
         else
           (case top_depths_of deck (coordsFromDeltas (SIDoubleData kx))
                   (coordsFromDeltas (SIDoubleData ky)) of
              Inl e \<Rightarrow> Inl e
            | Inr top_depths \<Rightarrow>
                throw_if_null
                  (create_grid_tensor3d B nx ny nz (Data (coordsFromDeltas (SIDoubleData kx)))
                     (Data (coordsFromDeltas (SIDoubleData ky)))
                     (Data (coordsFromDeltas (SIDoubleData kz))) top_depths)
                  ''Failed to construct grid.''))"
    using tensor_dims_resolved [of deck nx ny nz kx ky kz B] by blast
next
  assume a: "logical_dims deck = Inl e \<and> deck ''ZCORN'' = Some zk \<and> deck ''COORD'' = Some ck"
  then show "createGrdecl deck h = (Inl e, h)"
    using createGrdecl_dims_error [of deck e zk ck h] by blast
  from a show "initFromDeckCornerpoint B deck h = (Inl e, h)"
    using cornerpoint_dims_error [of deck e zk ck B h] by blast
next
  assume a: "logical_dims deck = Inr (nx, ny, nz) \<and> deck ''ZCORN'' = Some zk \<and>
    deck ''COORD'' = Some ck \<and> deck ''MAPAXES'' = None"
  then show c: "createGrdecl deck h =
        (Inr \<lparr>dims = (nx, ny, nz), coord = Data (SIDoubleData ck),
               zcorn = Data (SIDoubleData zk),
               actnum = (case deck ''ACTNUM'' of None \<Rightarrow> Null | Some ak \<Rightarrow> Data (IntData ak)),
               mapaxes = Null\<rparr>, h)"
    using createGrdecl_without_mapaxes [of deck zk ck "(nx, ny, nz)" h] by blast
  show "initFromDeckCornerpoint B deck h =
        (case create_grid_cornerpoint B
                \<lparr>dims = (nx, ny, nz), coord = Data (SIDoubleData ck),
                 zcorn = Data (SIDoubleData zk),
                 actnum = (case deck ''ACTNUM'' of None \<Rightarrow> Null | Some ak \<Rightarrow> Data (IntData ak)),
                 mapaxes = Null\<rparr> 0 h of
           (u, h2) \<Rightarrow> (throw_if_null u ''Failed to construct grid.'', h2))"
    by (rule cornerpoint_call [OF c])
next
  assume a: "logical_dims deck = Inr (nx, ny, nz) \<and> deck ''ZCORN'' = Some zk \<and>
    deck ''COORD'' = Some ck \<and> deck ''MAPAXES'' = Some mk \<and> record_list mk = r # rs' \<and>
    (\<forall>it\<in>set r. SI_double_values it \<noteq> [])"
  then show c: "createGrdecl deck h =
        (Inr \<lparr>dims = (nx, ny, nz), coord = Data (SIDoubleData ck),
               zcorn = Data (SIDoubleData zk),
               actnum = (case deck ''ACTNUM'' of None \<Rightarrow> Null | Some ak \<Rightarrow> Data (IntData ak)),
               mapaxes = Malloced (length h)\<rparr>, h @ [map Some (record_SI_values r)])"
    using createGrdecl_with_mapaxes [of deck zk ck "(nx, ny, nz)" mk r rs' h] by blast
  show "initFromDeckCornerpoint B deck h =
        (case create_grid_cornerpoint B
                \<lparr>dims = (nx, ny, nz), coord = Data (SIDoubleData ck),
                 zcorn = Data (SIDoubleData zk),
                 actnum = (case deck ''ACTNUM'' of None \<Rightarrow> Null | Some ak \<Rightarrow> Data (IntData ak)),
                 mapaxes = Malloced (length h)\<rparr> 0 (h @ [map Some (record_SI_values r)]) of
           (u, h2) \<Rightarrow> (throw_if_null u ''Failed to construct grid.'', h2))"
    by (rule cornerpoint_call [OF c])
qed


theorem logical_dims_resolution_witness:
  "logical_dims tensor_deck = Inr (2, 2, 1) \<and>
   logical_dims specgrid_tensor_deck = Inr (2, 1, 1) \<and>
   logical_dims dimens_and_specgrid_deck = Inr (1, 1, 1) \<and>
   logical_dims specgrid_cornerpoint_deck = Inr (2, 3, 4) \<and>
   logical_dims no_dims_tensor_deck =
     Inl (runtime_error ''Deck must have either DIMENS or SPECGRID.'') \<and>
   initFromDeckTensorgrid echo_builders no_dims_tensor_deck =
     Inl (runtime_error ''Deck must have either DIMENS or SPECGRID.'') \<and>
   initFromDeckTensorgrid echo_builders tensor_deck =
     Inr \<lparr>ug = Some (Built_tensor3d 2 2 1 (Data [0, 1, 2]) (Data [0, 1, 2]) (Data [0, 1]) Null)\<rparr> \<and>
   initFromDeckTensorgrid echo_builders specgrid_tensor_deck =
     Inr \<lparr>ug = Some (Built_tensor3d 2 1 1 (Data [0, 1, 2]) (Data [0, 1]) (Data [0, 1]) Null)\<rparr> \<and>
   initFromDeckTensorgrid echo_builders dimens_and_specgrid_deck =
     Inr \<lparr>ug = Some (Built_tensor3d 1 1 1 (Data [0, 1]) (Data [0, 1]) (Data [0, 1]) Null)\<rparr> \<and>
   initFromDeckTensorgrid echo_builders specgrid_deck =
     Inl (runtime_error ''Number of DXV data points do not match DIMENS or SPECGRID.'') \<and>
   initFromDeckCornerpoint echo_builders no_dims_cornerpoint_deck [] =
     (Inl (runtime_error ''Deck must have either DIMENS or SPECGRID.''), []) \<and>
   initFromDeckCornerpoint echo_builders specgrid_cornerpoint_deck [] =
     (Inr \<lparr>ug = Some (Built_cornerpoint
              \<lparr>dims = (2, 3, 4), coord = Data [5], zcorn = Data [0, 1], actnum = Null,
               mapaxes = Null\<rparr> 0)\<rparr>, []) \<and>
   initFromDeckCornerpoint echo_builders dimens_and_specgrid_deck [] =
     (Inr \<lparr>ug = Some (Built_cornerpoint
              \<lparr>dims = (1, 1, 1), coord = Data unit_coord,
               zcorn = Data [0, 0, 0, 0, 1, 1, 1, 1], actnum = Null, mapaxes = Null\<rparr> 0)\<rparr>, []) \<and>
   initFromDeckCornerpoint echo_builders mapaxes_deck [] =
     (Inr \<lparr>ug = Some (Built_cornerpoint
              \<lparr>dims = (1, 1, 1), coord = Data unit_coord,
               zcorn = Data [0, 0, 0, 0, 1, 1, 1, 1], actnum = Null,
               mapaxes = Malloced 0\<rparr> 0)\<rparr>, [[Some 0, Some 1, Some 0, Some 0, Some 1, Some 0]])"
proof -
  note ev = data_keyword_def dims_keyword_def int_item_def double_item_def
  have d1: "logical_dims tensor_deck = Inr (2, 2, 1)"
    using logical_dims_resolution [where deck = tensor_deck and kw = "dims_keyword 2 2 1"
        and ?i0.0 = "int_item 2" and ?i1.0 = "int_item 2" and ?i2.0 = "int_item 1"
        and items = "[]" and rs = "[]" and nx = 2 and ny = 2 and nz = 1
        and xs = "[]" and ys = "[]" and zs = "[]", THEN conjunct1]
    by (simp add: tensor_deck_def ev)
  have d2: "logical_dims specgrid_tensor_deck = Inr (2, 1, 1)"
    using logical_dims_resolution [where deck = specgrid_tensor_deck and kw = "dims_keyword 2 1 1"
        and ?i0.0 = "int_item 2" and ?i1.0 = "int_item 1" and ?i2.0 = "int_item 1"
        and items = "[]" and rs = "[]" and nx = 2 and ny = 1 and nz = 1
        and xs = "[]" and ys = "[]" and zs = "[]", THEN conjunct2, THEN conjunct1]
    by (simp add: specgrid_tensor_deck_def ev)
  have d3: "logical_dims dimens_and_specgrid_deck = Inr (1, 1, 1)"
    using logical_dims_resolution [where deck = dimens_and_specgrid_deck
        and kw = "dims_keyword 1 1 1"
        and ?i0.0 = "int_item 1" and ?i1.0 = "int_item 1" and ?i2.0 = "int_item 1"
        and items = "[]" and rs = "[]" and nx = 1 and ny = 1 and nz = 1
        and xs = "[]" and ys = "[]" and zs = "[]", THEN conjunct1]
    by (simp add: dimens_and_specgrid_deck_def both_deck_def ev)
  have d4: "logical_dims specgrid_cornerpoint_deck = Inr (2, 3, 4)"
    using logical_dims_resolution [where deck = specgrid_cornerpoint_deck
        and kw = "dims_keyword 2 3 4"
        and ?i0.0 = "int_item 2" and ?i1.0 = "int_item 3" and ?i2.0 = "int_item 4"
        and items = "[]" and rs = "[]" and nx = 2 and ny = 3 and nz = 4
        and xs = "[]" and ys = "[]" and zs = "[]", THEN conjunct2, THEN conjunct1]
    by (simp add: specgrid_cornerpoint_deck_def ev)
  have d5: "logical_dims specgrid_deck = Inr (3, 1, 1)"
    using logical_dims_resolution [where deck = specgrid_deck and kw = "dims_keyword 3 1 1"
        and ?i0.0 = "int_item 3" and ?i1.0 = "int_item 1" and ?i2.0 = "int_item 1"
        and items = "[]" and rs = "[]" and nx = 3 and ny = 1 and nz = 1
        and xs = "[]" and ys = "[]" and zs = "[]", THEN conjunct2, THEN conjunct1]
    by (simp add: specgrid_deck_def ev)
  have d6: "logical_dims mapaxes_deck = Inr (1, 1, 1)"
    using logical_dims_resolution [where deck = mapaxes_deck and kw = "dims_keyword 1 1 1"
        and ?i0.0 = "int_item 1" and ?i1.0 = "int_item 1" and ?i2.0 = "int_item 1"
        and items = "[]" and rs = "[]" and nx = 1 and ny = 1 and nz = 1
        and xs = "[]" and ys = "[]" and zs = "[]", THEN conjunct1]
    by (simp add: mapaxes_deck_def both_deck_def ev)
  have n1: "logical_dims no_dims_tensor_deck =
      Inl (runtime_error ''Deck must have either DIMENS or SPECGRID.'')"
    using logical_dims_resolution [where deck = no_dims_tensor_deck,
        THEN conjunct2, THEN conjunct2, THEN conjunct1]
    by (simp add: no_dims_tensor_deck_def)
  have n2: "logical_dims no_dims_cornerpoint_deck =
      Inl (runtime_error ''Deck must have either DIMENS or SPECGRID.'')"
    using logical_dims_resolution [where deck = no_dims_cornerpoint_deck,
        THEN conjunct2, THEN conjunct2, THEN conjunct1]
    by (simp add: no_dims_cornerpoint_deck_def)
  have t0: "initFromDeckTensorgrid echo_builders no_dims_tensor_deck =
      Inl (runtime_error ''Deck must have either DIMENS or SPECGRID.'')"
    using logical_dims_resolution [where deck = no_dims_tensor_deck and B = echo_builders,
        THEN conjunct2, THEN conjunct2, THEN conjunct2, THEN conjunct1] n1
    by simp
  have t1: "initFromDeckTensorgrid echo_builders tensor_deck =
      Inr \<lparr>ug = Some (Built_tensor3d 2 2 1 (Data [0, 1, 2]) (Data [0, 1, 2]) (Data [0, 1]) Null)\<rparr>"
    using logical_dims_resolution [where deck = tensor_deck and B = echo_builders
        and nx = 2 and ny = 2 and nz = 1
        and kx = "data_keyword [1, 1]" and ky = "data_keyword [1, 1]" and kz = "data_keyword [1]",
        THEN conjunct2, THEN conjunct2, THEN conjunct2, THEN conjunct2, THEN conjunct1] d1
    by (simp add: tensor_deck_def echo_builders_def deck_eval coordsFromDeltas_Cons)
  have t2: "initFromDeckTensorgrid echo_builders specgrid_tensor_deck =
      Inr \<lparr>ug = Some (Built_tensor3d 2 1 1 (Data [0, 1, 2]) (Data [0, 1]) (Data [0, 1]) Null)\<rparr>"
    using logical_dims_resolution [where deck = specgrid_tensor_deck and B = echo_builders
        and nx = 2 and ny = 1 and nz = 1
        and kx = "data_keyword [1, 1]" and ky = "data_keyword [1]" and kz = "data_keyword [1]",
        THEN conjunct2, THEN conjunct2, THEN conjunct2, THEN conjunct2, THEN conjunct1] d2
    by (simp add: specgrid_tensor_deck_def echo_builders_def deck_eval coordsFromDeltas_Cons)
  have t3: "initFromDeckTensorgrid echo_builders dimens_and_specgrid_deck =
      Inr \<lparr>ug = Some (Built_tensor3d 1 1 1 (Data [0, 1]) (Data [0, 1]) (Data [0, 1]) Null)\<rparr>"
    using logical_dims_resolution [where deck = dimens_and_specgrid_deck and B = echo_builders
        and nx = 1 and ny = 1 and nz = 1
        and kx = "data_keyword [1]" and ky = "data_keyword [1]" and kz = "data_keyword [1]",
        THEN conjunct2, THEN conjunct2, THEN conjunct2, THEN conjunct2, THEN conjunct1] d3
    by (simp add: dimens_and_specgrid_deck_def both_deck_def echo_builders_def deck_eval
        coordsFromDeltas_Cons)
  have t4: "initFromDeckTensorgrid echo_builders specgrid_deck =
      Inl (runtime_error ''Number of DXV data points do not match DIMENS or SPECGRID.'')"
    using logical_dims_resolution [where deck = specgrid_deck and B = echo_builders
        and nx = 3 and ny = 1 and nz = 1
        and kx = "data_keyword [1, 1]" and ky = "data_keyword [1]" and kz = "data_keyword [1]",
        THEN conjunct2, THEN conjunct2, THEN conjunct2, THEN conjunct2, THEN conjunct1] d5
    by (simp add: specgrid_deck_def data_keyword_def)
  have c0: "initFromDeckCornerpoint echo_builders no_dims_cornerpoint_deck [] =
      (Inl (runtime_error ''Deck must have either DIMENS or SPECGRID.''), [])"
    using logical_dims_resolution [where deck = no_dims_cornerpoint_deck and B = echo_builders
        and h = "[]" and zk = "data_keyword [0, 0, 0, 0, 1, 1, 1, 1]"
        and ck = "data_keyword [0, 0, 0, 0, 0, 1]",
        THEN conjunct2, THEN conjunct2, THEN conjunct2, THEN conjunct2, THEN conjunct2, THEN conjunct1] n2
    by (simp add: no_dims_cornerpoint_deck_def)
  have c1: "initFromDeckCornerpoint echo_builders specgrid_cornerpoint_deck [] =
     (Inr \<lparr>ug = Some (Built_cornerpoint
              \<lparr>dims = (2, 3, 4), coord = Data [5], zcorn = Data [0, 1], actnum = Null,
               mapaxes = Null\<rparr> 0)\<rparr>, [])"
    using logical_dims_resolution [where deck = specgrid_cornerpoint_deck and B = echo_builders and h = "[]"
        and nx = 2 and ny = 3 and nz = 4
        and zk = "data_keyword [0, 1]" and ck = "data_keyword [5]",
        THEN conjunct2, THEN conjunct2, THEN conjunct2, THEN conjunct2, THEN conjunct2, THEN conjunct2, THEN conjunct1] d4
    by (simp add: specgrid_cornerpoint_deck_def echo_builders_def data_keyword_def
        throw_if_null_def)
  have c2: "initFromDeckCornerpoint echo_builders dimens_and_specgrid_deck [] =
     (Inr \<lparr>ug = Some (Built_cornerpoint
              \<lparr>dims = (1, 1, 1), coord = Data unit_coord,
               zcorn = Data [0, 0, 0, 0, 1, 1, 1, 1], actnum = Null, mapaxes = Null\<rparr> 0)\<rparr>, [])"
    using logical_dims_resolution [where deck = dimens_and_specgrid_deck and B = echo_builders and h = "[]"
        and nx = 1 and ny = 1 and nz = 1
        and zk = "data_keyword [0, 0, 0, 0, 1, 1, 1, 1]" and ck = "data_keyword unit_coord",
        THEN conjunct2, THEN conjunct2, THEN conjunct2, THEN conjunct2, THEN conjunct2, THEN conjunct2, THEN conjunct1] d3
    by (simp add: dimens_and_specgrid_deck_def both_deck_def unit_coord_def echo_builders_def
        data_keyword_def throw_if_null_def)
  let ?items = "map double_item [0, 1, 0, 0, 1, 0]"
  have c3: "initFromDeckCornerpoint echo_builders mapaxes_deck [] =
     (Inr \<lparr>ug = Some (Built_cornerpoint
              \<lparr>dims = (1, 1, 1), coord = Data unit_coord,
               zcorn = Data [0, 0, 0, 0, 1, 1, 1, 1], actnum = Null,
               mapaxes = Malloced 0\<rparr> 0)\<rparr>, [[Some 0, Some 1, Some 0, Some 0, Some 1, Some 0]])"
    using logical_dims_resolution [where deck = mapaxes_deck and B = echo_builders and h = "[]"
        and nx = 1 and ny = 1 and nz = 1
        and zk = "data_keyword [0, 0, 0, 0, 1, 1, 1, 1]" and ck = "data_keyword unit_coord"
        and mk = "\<lparr>SIDoubleData = [], IntData = [], record_list = [?items]\<rparr>"
        and r = ?items and rs' = "[]",
        THEN conjunct2, THEN conjunct2, THEN conjunct2, THEN conjunct2, THEN conjunct2, THEN conjunct2, THEN conjunct2] d6
    by (simp add: mapaxes_deck_def both_deck_def unit_coord_def echo_builders_def
        data_keyword_def throw_if_null_def double_item_def record_SI_values_def)
  from d1 d2 d3 d4 n1 t0 t1 t2 t3 t4 c0 c1 c2 c3 show ?thesis by simp
qed

end
